theory Spec2Isabelle
  imports Main "HOL-Library.Word"
begin

unbundle bit_operations_syntax

section \<open>FSP 2.0 memory initialisation (src/drivers/intel/fsp2_0/memory_init.c)\<close>

text \<open>
  A shallow embedding of \<^verbatim>\<open>memory_init.c\<close>. The driver runs in 32-bit protected mode (the FSP-M
  entry point is a 32-bit routine), so \<^verbatim>\<open>uintptr_t\<close>, \<^verbatim>\<open>size_t\<close> and \<^verbatim>\<open>uint32_t\<close> are
  \<open>32 word\<close>; \<^verbatim>\<open>resource_t\<close>, the type of the bounds of a range entry, is \<open>64 word\<close>.
  A pointer to cached training data is an \<open>option\<close> of the payload it points to, \<open>None\<close>
  being \<^verbatim>\<open>NULL\<close>. Calls that do not return (\<^verbatim>\<open>full_reset\<close>, \<^verbatim>\<open>die\<close>, a fatal assertion) end
  a run with a \<open>stop\<close> value. Calls to collaborators outside the file are recorded, in order,
  in a list of events. Logging, post codes, timestamps and the \<^verbatim>\<open>fsp_debug_*\<close> hooks are
  instrumentation and are left out.
\<close>

subsection \<open>Types\<close>

type_synonym uintptr_t = "32 word"
type_synonym resource_t = "64 word"
type_synonym payload = "8 word list"

datatype cb_err = CB_SUCCESS | CB_ERR

text \<open>
  Modelled from the spec: \<^verbatim>\<open>struct range_entry\<close> and \<^verbatim>\<open>struct memranges\<close> of \<^verbatim>\<open>memrange.h\<close>,
  which is not among the sources. An entry is a base and a size; the map is the ordered
  collection of its entries, which is queried and never merges anything by itself.
\<close>

record range_entry =
  base :: resource_t
  size :: resource_t

type_synonym memranges = "range_entry list"

definition range_entry_base :: "range_entry \<Rightarrow> resource_t" where
  "range_entry_base r = base r"

definition range_entry_end :: "range_entry \<Rightarrow> resource_t" where
  "range_entry_end r = base r + size r"

definition range_entry_size :: "range_entry \<Rightarrow> resource_t" where
  "range_entry_size r = size r"

definition memranges_init_empty :: memranges where
  "memranges_init_empty = []"

definition memranges_insert :: "memranges \<Rightarrow> resource_t \<Rightarrow> resource_t \<Rightarrow> nat \<Rightarrow> memranges" where
  "memranges_insert ranges b sz tag = ranges @ [\<lparr>base = b, size = sz\<rparr>]"

text \<open>
  Modelled from the spec: the kinds of training-cache entries (\<^verbatim>\<open>mrc_cache.h\<close> is not among
  the sources).
\<close>

datatype mrc_kind = MRC_TRAINING_DATA | MRC_RECOVERY_TRAINING_DATA

text \<open>
  The boot modes the file names. The UPD defaults come from the FSP binary and may hold any
  other value, kept as \<open>FSP_BOOT_MODE_OTHER\<close>.
\<close>

datatype fsp_boot_mode =
    FSP_BOOT_WITH_FULL_CONFIGURATION
  | FSP_BOOT_ASSUMING_NO_CONFIGURATION_CHANGES
  | FSP_BOOT_ON_S3_RESUME
  | FSP_BOOT_MODE_OTHER nat

record FSPM_ARCH_UPD =
  StackBase :: uintptr_t
  StackSize :: "32 word"
  BootLoaderTolumSize :: "32 word"
  BootMode :: fsp_boot_mode
  NvsBufferPtr :: "payload option"

record FSPM_UPD =
  Signature :: "64 word"
  FspmArchUpd :: FSPM_ARCH_UPD
  FspmConfig :: "8 word list"

record fsp_header =
  fsp_revision :: "32 word"
  image_base :: "32 word"
  cfg_region_offset :: "32 word"
  memory_init_entry_offset :: "32 word"

record fspm_context =
  header :: fsp_header
  memmap :: memranges

text \<open>What the FSP leaves in its hand-off blob list, as far as this file queries it.\<close>

record hob_list =
  fsp_find_reserved_memory :: range_entry
  fsp_find_nv_storage_data :: "payload option"

text \<open>The build configuration: the \<^verbatim>\<open>CONFIG(...)\<close> switches and constants the file reads.\<close>

record config =
  CACHE_MRC_SETTINGS :: bool
  HAS_RECOVERY_MRC_CACHE :: bool
  BOOT_DEVICE_MEMORY_MAPPED :: bool
  FATAL_ASSERTS :: bool
  FSP2_0_USES_TPM_MRC_HASH :: bool
  FSP_USES_CB_STACK :: bool
  ENV_CACHE_AS_RAM :: bool
  FSP_PLATFORM_MEMORY_SETTINGS_VERSIONS :: bool
  HAVE_ACPI_RESUME :: bool
  MMA :: bool
  FSP_M_XIP :: bool
  CONFIG_FSP_TEMP_RAM_SIZE :: "32 word"
  CONFIG_FSP_M_ADDR :: "32 word"
  FSPM_UPD_SIGNATURE :: "64 word"

text \<open>
  The collaborators of the file: linker symbols, platform hooks, the training cache, the
  boot-persistent memory area (CBMEM) and the FSP-M binary itself. CBMEM is seen only through
  the address at which \<^verbatim>\<open>cbmem_find(CBMEM_ID_FSP_RESERVED_MEMORY)\<close> finds the reserved area
  after the initialisation call, so the two initialisers return that address.
\<close>

record env =
  car_region_start :: uintptr_t
  car_unallocated_start :: uintptr_t
  car_region_end :: uintptr_t
  program_start :: uintptr_t
  program_end :: uintptr_t
  temp_ram :: uintptr_t
  vboot_recovery_mode_enabled :: bool
  get_recovery_mode_retrain_switch :: bool
  mrc_cache_current_mmap_leak :: "mrc_kind \<Rightarrow> 32 word \<Rightarrow> payload option"
  mrc_cache_verify_hash :: "payload \<Rightarrow> bool"
  mainboard_version_hook :: "8 word"
  soc_version_hook :: "8 word"
  upd_region :: "32 word \<Rightarrow> FSPM_UPD"
  cbmem_overhead_size :: "32 word"
  platform_fsp_memory_init_params_cb :: "FSPM_UPD \<Rightarrow> 32 word \<Rightarrow> FSPM_UPD"
  setup_mma :: "8 word list \<Rightarrow> 8 word list"
  fsp_raminit :: "FSPM_UPD \<Rightarrow> 32 word \<times> hob_list"
  fsp_reset_requested :: "32 word \<Rightarrow> bool"
  cbmem_initialize_empty_id_size :: "resource_t \<Rightarrow> uintptr_t"
  cbmem_initialize_id_size :: "resource_t \<Rightarrow> int \<times> uintptr_t"
  cbfs_locate :: "(nat \<times> 32 word) option"
  rdev_mmap_full :: "nat \<Rightarrow> uintptr_t"
  fsp_validate_component :: "nat \<Rightarrow> fsp_header option"

datatype post_code = POST_INVALID_VENDOR_BINARY | POST_RAM_FAILURE

datatype stop = FULL_RESET | DIE | DIE_WITH_POST_CODE post_code | HLT

datatype event =
    Ev_platform_fsp_memory_init_params_cb
  | Ev_setup_mma
  | Ev_full_reset
  | Ev_die
  | Ev_die_with_post_code post_code
  | Ev_fsp_raminit "32 word" hob_list
  | Ev_fsp_handle_reset "32 word"
  | Ev_cbmem_initialize_empty_id_size resource_t
  | Ev_cbmem_initialize_id_size resource_t
  | Ev_mrc_cache_stash_data mrc_kind "32 word" payload
  | Ev_mrc_cache_update_hash payload
  | Ev_romstage_handoff_init bool

type_synonym 'a run = "event list \<times> (stop + 'a)"

definition FSP_SUCCESS :: "32 word" where
  "FSP_SUCCESS = 0"

subsection \<open>Saving the training data (lines 34-60)\<close>

definition save_memory_training_data ::
  "config \<Rightarrow> hob_list \<Rightarrow> bool \<Rightarrow> 32 word \<Rightarrow> event list" where
  "save_memory_training_data cfg hobs s3wake fsp_version =
     (if \<not> CACHE_MRC_SETTINGS cfg \<or> s3wake then []
      else case fsp_find_nv_storage_data hobs of
        None \<Rightarrow> []
      | Some mrc_data \<Rightarrow>
          [Ev_mrc_cache_stash_data MRC_TRAINING_DATA fsp_version mrc_data] @
          (if FSP2_0_USES_TPM_MRC_HASH cfg then [Ev_mrc_cache_update_hash mrc_data] else []))"

subsection \<open>Reconciliation after the call (lines 62-92)\<close>

definition do_fsp_post_memory_init ::
  "config \<Rightarrow> env \<Rightarrow> hob_list \<Rightarrow> bool \<Rightarrow> 32 word \<Rightarrow> unit run" where
  "do_fsp_post_memory_init cfg e hobs s3wake fsp_version =
     (let fsp_mem = fsp_find_reserved_memory hobs;
          sz = range_entry_size fsp_mem;
          rest = (\<lambda>found.
            if range_entry_base fsp_mem \<noteq> ucast found then ([Ev_die], Inl DIE)
            else (save_memory_training_data cfg hobs s3wake fsp_version @
                  [Ev_romstage_handoff_init s3wake], Inr ()))
      in if \<not> s3wake then
           (case rest (cbmem_initialize_empty_id_size e sz) of
              (tr, r) \<Rightarrow> (Ev_cbmem_initialize_empty_id_size sz # tr, r))
         else
           (case cbmem_initialize_id_size e sz of
              (rc, found) \<Rightarrow>
                if rc \<noteq> 0 \<and> HAVE_ACPI_RESUME cfg then
                  ([Ev_cbmem_initialize_id_size sz, Ev_full_reset], Inl FULL_RESET)
                else
                  (case rest found of
                     (tr, r) \<Rightarrow> (Ev_cbmem_initialize_id_size sz # tr, r))))"

subsection \<open>Consulting the training cache (lines 94-132)\<close>

text \<open>
  \<^verbatim>\<open>assert\<close> comes from \<^verbatim>\<open>assert.h\<close>, not among the sources: a failed assertion halts when
  \<open>FATAL_ASSERTS\<close> is configured and is only reported otherwise.
\<close>

definition fsp_fill_mrc_cache ::
  "config \<Rightarrow> env \<Rightarrow> FSPM_ARCH_UPD \<Rightarrow> 32 word \<Rightarrow> stop + FSPM_ARCH_UPD" where
  "fsp_fill_mrc_cache cfg e arch_upd fsp_version =
     (let arch_upd = arch_upd\<lparr>NvsBufferPtr := None\<rparr>
      in if \<not> CACHE_MRC_SETTINGS cfg then Inr arch_upd
         else if vboot_recovery_mode_enabled e \<and>
                 (\<not> HAS_RECOVERY_MRC_CACHE cfg \<or> get_recovery_mode_retrain_switch e)
           then Inr arch_upd
         else if \<not> BOOT_DEVICE_MEMORY_MAPPED cfg \<and> FATAL_ASSERTS cfg then Inl HLT
         else (case mrc_cache_current_mmap_leak e MRC_TRAINING_DATA fsp_version of
                 None \<Rightarrow> Inr arch_upd
               | Some data \<Rightarrow>
                   if FSP2_0_USES_TPM_MRC_HASH cfg \<and> \<not> mrc_cache_verify_hash e data
                   then Inr arch_upd
                   else Inr (arch_upd\<lparr>NvsBufferPtr := Some data\<rparr>)))"

subsection \<open>The region map query (lines 134-151)\<close>

fun check_region_overlap :: "memranges \<Rightarrow> uintptr_t \<Rightarrow> uintptr_t \<Rightarrow> cb_err" where
  "check_region_overlap [] begin end = CB_SUCCESS"
| "check_region_overlap (r # rs) begin end =
     (if ucast end \<le> range_entry_base r then check_region_overlap rs begin end
      else if ucast begin \<ge> range_entry_end r then check_region_overlap rs begin end
      else CB_ERR)"

subsection \<open>Stack placement and the common parameters (lines 153-209)\<close>

definition setup_fsp_stack_frame ::
  "env \<Rightarrow> FSPM_ARCH_UPD \<Rightarrow> memranges \<Rightarrow> cb_err \<times> FSPM_ARCH_UPD" where
  "setup_fsp_stack_frame e arch_upd mm =
     (let stack_end = car_region_end e;
          stack_begin = stack_end - StackSize arch_upd
      in if check_region_overlap mm stack_begin stack_end \<noteq> CB_SUCCESS
         then (CB_ERR, arch_upd)
         else (CB_SUCCESS, arch_upd\<lparr>StackBase := stack_begin\<rparr>))"

definition fsp_fill_common_arch_params ::
  "config \<Rightarrow> env \<Rightarrow> FSPM_ARCH_UPD \<Rightarrow> bool \<Rightarrow> 32 word \<Rightarrow> memranges
     \<Rightarrow> stop + cb_err \<times> FSPM_ARCH_UPD" where
  "fsp_fill_common_arch_params cfg e arch_upd s3wake fsp_version mm =
     (let placed =
        (if FSP_USES_CB_STACK cfg \<or> \<not> ENV_CACHE_AS_RAM cfg
         then (CB_SUCCESS,
               arch_upd\<lparr>StackBase := temp_ram e, StackSize := CONFIG_FSP_TEMP_RAM_SIZE cfg\<rparr>)
         else setup_fsp_stack_frame e arch_upd mm)
      in case placed of
           (CB_ERR, arch_upd1) \<Rightarrow> Inr (CB_ERR, arch_upd1)
         | (CB_SUCCESS, arch_upd1) \<Rightarrow>
             (case fsp_fill_mrc_cache cfg e arch_upd1 fsp_version of
                Inl s \<Rightarrow> Inl s
              | Inr arch_upd2 \<Rightarrow>
                  Inr (CB_SUCCESS,
                       if s3wake then arch_upd2\<lparr>BootMode := FSP_BOOT_ON_S3_RESUME\<rparr>
                       else if NvsBufferPtr arch_upd2 \<noteq> None
                         then arch_upd2\<lparr>BootMode := FSP_BOOT_ASSUMING_NO_CONFIGURATION_CHANGES\<rparr>
                       else arch_upd2\<lparr>BootMode := FSP_BOOT_WITH_FULL_CONFIGURATION\<rparr>)))"

subsection \<open>The settings version (lines 211-244)\<close>

text \<open>The weak defaults of the two platform version hooks.\<close>

definition fsp_memory_mainboard_version :: "8 word" where
  "fsp_memory_mainboard_version = 0"

definition fsp_memory_soc_version :: "8 word" where
  "fsp_memory_soc_version = 0"

definition fsp_memory_settings_version :: "config \<Rightarrow> env \<Rightarrow> fsp_header \<Rightarrow> 32 word" where
  "fsp_memory_settings_version cfg e hdr =
     (let ver = fsp_revision hdr
      in if \<not> FSP_PLATFORM_MEMORY_SETTINGS_VERSIONS cfg then ver
         else
           let ver = ver AND NOT 0xff;
               ver = ver OR push_bit 4 (ucast (0xf AND mainboard_version_hook e));
               ver = ver OR push_bit 0 (ucast (0xf AND soc_version_hook e))
           in ver)"

subsection \<open>The call into the module (lines 246-329)\<close>

text \<open>
  Modelled from the spec: \<^verbatim>\<open>fsp_handle_reset\<close> of \<^verbatim>\<open>fsp/util.c\<close>, not among the sources. When
  the status is a reset request the platform is reset and control never returns; any other
  status returns to the caller. Which statuses request a reset is the collaborator
  \<open>fsp_reset_requested\<close>.
\<close>

definition fsp_handle_reset :: "env \<Rightarrow> 32 word \<Rightarrow> unit run" where
  "fsp_handle_reset e status =
     (if fsp_reset_requested e status
      then ([Ev_fsp_handle_reset status, Ev_full_reset], Inl FULL_RESET)
      else ([Ev_fsp_handle_reset status], Inr ()))"

definition do_fsp_memory_init :: "config \<Rightarrow> env \<Rightarrow> fspm_context \<Rightarrow> bool \<Rightarrow> unit run" where
  "do_fsp_memory_init cfg e context s3wake =
     (let hdr = header context;
          mm = memmap context;
          fsp_version = fsp_memory_settings_version cfg e hdr;
          upd = upd_region e (cfg_region_offset hdr + image_base hdr)
      in if Signature upd \<noteq> FSPM_UPD_SIGNATURE cfg then
           ([Ev_die_with_post_code POST_INVALID_VENDOR_BINARY],
            Inl (DIE_WITH_POST_CODE POST_INVALID_VENDOR_BINARY))
         else
           let fspm_upd = upd;
               arch_upd = (FspmArchUpd fspm_upd)\<lparr>BootLoaderTolumSize := cbmem_overhead_size e\<rparr>
           in case fsp_fill_common_arch_params cfg e arch_upd s3wake fsp_version mm of
                Inl s \<Rightarrow> ([], Inl s)
              | Inr (CB_ERR, _) \<Rightarrow>
                  ([Ev_die_with_post_code POST_INVALID_VENDOR_BINARY],
                   Inl (DIE_WITH_POST_CODE POST_INVALID_VENDOR_BINARY))
              | Inr (CB_SUCCESS, arch_upd) \<Rightarrow>
                  let fspm_upd = platform_fsp_memory_init_params_cb e
                                   (fspm_upd\<lparr>FspmArchUpd := arch_upd\<rparr>) fsp_version
                  in if s3wake \<and> NvsBufferPtr (FspmArchUpd fspm_upd) = None then
                       ([Ev_platform_fsp_memory_init_params_cb, Ev_full_reset], Inl FULL_RESET)
                     else
                       let fspm_upd =
                             (if MMA cfg
                              then fspm_upd\<lparr>FspmConfig := setup_mma e (FspmConfig fspm_upd)\<rparr>
                              else fspm_upd);
                           (status, hobs) = fsp_raminit e fspm_upd;
                           pre = [Ev_platform_fsp_memory_init_params_cb] @
                                 (if MMA cfg then [Ev_setup_mma] else []) @
                                 [Ev_fsp_raminit status hobs]
                       in (case fsp_handle_reset e status of
                             (tr, Inl s) \<Rightarrow> (pre @ tr, Inl s)
                           | (tr, Inr _) \<Rightarrow>
                               if status \<noteq> FSP_SUCCESS then
                                 (pre @ tr @ [Ev_die_with_post_code POST_RAM_FAILURE],
                                  Inl (DIE_WITH_POST_CODE POST_RAM_FAILURE))
                               else
                                 (case do_fsp_post_memory_init cfg e hobs s3wake fsp_version of
                                    (tr2, r) \<Rightarrow> (pre @ tr @ tr2, r))))"

subsection \<open>Placing the module image and the top of the flow (lines 331-396)\<close>

text \<open>
  \<open>fspm_get_dest\<close> reads the region map of the context behind \<^verbatim>\<open>fspld->arg\<close> and, when the
  image executes in place, has \<^verbatim>\<open>fsp_validate_component\<close> fill the header of that context.
  It returns its status, what it stored in \<^verbatim>\<open>*dest\<close> and the header it filled, if any.
\<close>

definition fspm_get_dest ::
  "config \<Rightarrow> env \<Rightarrow> memranges \<Rightarrow> 32 word \<Rightarrow> nat
     \<Rightarrow> int \<times> uintptr_t option \<times> fsp_header option" where
  "fspm_get_dest cfg e mm sz source =
     (if FSP_M_XIP cfg then
        (case fsp_validate_component e source of
           None \<Rightarrow> (- 1, None, None)
         | Some hdr \<Rightarrow>
             let dest = rdev_mmap_full e source
             in if dest \<noteq> image_base hdr then (- 1, Some dest, Some hdr)
                else (0, Some dest, Some hdr))
      else
        let fspm_begin = CONFIG_FSP_M_ADDR cfg;
            fspm_end = fspm_begin + sz
        in if check_region_overlap mm fspm_begin fspm_end \<noteq> CB_SUCCESS then (- 1, None, None)
           else (0, Some fspm_begin, None))"

text \<open>
  Modelled from the spec: \<^verbatim>\<open>fsp_load_component\<close> of \<^verbatim>\<open>fsp/util.c\<close>, not among the sources. It
  locates the module image, asks the descriptor's \<^verbatim>\<open>get_destination\<close> where the image goes
  and validates the header of the image.
\<close>

definition fsp_load_component ::
  "config \<Rightarrow> env \<Rightarrow> memranges \<Rightarrow> cb_err \<times> fsp_header option" where
  "fsp_load_component cfg e mm =
     (case cbfs_locate e of
        None \<Rightarrow> (CB_ERR, None)
      | Some (source, sz) \<Rightarrow>
          (case fspm_get_dest cfg e mm sz source of
             (rc, dest, hdr) \<Rightarrow>
               if rc < 0 then (CB_ERR, hdr)
               else (case fsp_validate_component e source of
                       None \<Rightarrow> (CB_ERR, hdr)
                     | Some h \<Rightarrow> (CB_SUCCESS, Some h))))"

text \<open>
  The region map \<open>fsp_memory_init\<close> builds before anything else (lines 381-386): the used part
  of the cache-as-RAM region, then the running program. The first size is a pointer
  difference, the second the size of the program region.
\<close>

definition fsp_memory_init_memmap :: "config \<Rightarrow> env \<Rightarrow> memranges" where
  "fsp_memory_init_memmap cfg e =
     (let mm = memranges_init_empty;
          mm = (if ENV_CACHE_AS_RAM cfg
                then memranges_insert mm (ucast (car_region_start e))
                       (scast (car_unallocated_start e - car_region_start e)) 0
                else mm)
      in memranges_insert mm (ucast (program_start e))
           (ucast (program_end e - program_start e)) 0)"

definition fsp_memory_init :: "config \<Rightarrow> env \<Rightarrow> bool \<Rightarrow> unit run" where
  "fsp_memory_init cfg e s3wake =
     (let mm = fsp_memory_init_memmap cfg e
      in case fsp_load_component cfg e mm of
           (CB_SUCCESS, Some hdr) \<Rightarrow>
             do_fsp_memory_init cfg e \<lparr>header = hdr, memmap = mm\<rparr> s3wake
         | _ \<Rightarrow> ([Ev_die], Inl DIE))"


text \<open>
  The address ranges the checks compare, as sets of addresses: a candidate \<open>[begin, end)\<close>
  and the range \<open>[base, end)\<close> of an entry.
\<close>

definition candidate_region :: "uintptr_t \<Rightarrow> uintptr_t \<Rightarrow> resource_t set" where
  "candidate_region begin end = {ucast begin ..< ucast end}"

definition entry_region :: "range_entry \<Rightarrow> resource_t set" where
  "entry_region r = {range_entry_base r ..< range_entry_end r}"

text \<open>
  The addresses a stack of the requested size below the end of the CAR region occupies, and
  the addresses an image of \<open>sz\<close> bytes at \<^verbatim>\<open>CONFIG_FSP_M_ADDR\<close> occupies, computed in 64
  bits, where neither bound can wrap around.
\<close>

definition stack_region :: "env \<Rightarrow> FSPM_ARCH_UPD \<Rightarrow> resource_t set" where
  "stack_region e arch_upd =
     {ucast (car_region_end e) - ucast (StackSize arch_upd) ..< ucast (car_region_end e)}"

definition image_region :: "config \<Rightarrow> 32 word \<Rightarrow> resource_t set" where
  "image_region cfg sz =
     {ucast (CONFIG_FSP_M_ADDR cfg) ..< ucast (CONFIG_FSP_M_ADDR cfg) + ucast sz}"

fun is_stash :: "event \<Rightarrow> bool" where
  "is_stash (Ev_mrc_cache_stash_data k v d) = True"
| "is_stash _ = False"

fun is_post_init :: "event \<Rightarrow> bool" where
  "is_post_init (Ev_cbmem_initialize_empty_id_size s) = True"
| "is_post_init (Ev_cbmem_initialize_id_size s) = True"
| "is_post_init (Ev_mrc_cache_stash_data k v d) = True"
| "is_post_init (Ev_mrc_cache_update_hash d) = True"
| "is_post_init (Ev_romstage_handoff_init b) = True"
| "is_post_init _ = False"

subsection \<open>A sample platform\<close>

text \<open>
  A cache-as-RAM platform with a non-XIP FSP-M: CAR at \<open>0xfef00000 .. 0xfefc0000\<close> of which
  the first 64 KiB are in use, the program in flash at \<open>0xffe00000 .. 0xffe40000\<close>, FSP-M
  loaded at \<open>0xfef40000\<close> and asking for a stack of 128 KiB. The cache holds 128 bytes of
  training data under version 7.
\<close>

definition sample_cfg :: config where
  "sample_cfg = \<lparr>
     CACHE_MRC_SETTINGS = True, HAS_RECOVERY_MRC_CACHE = False,
     BOOT_DEVICE_MEMORY_MAPPED = True, FATAL_ASSERTS = False,
     FSP2_0_USES_TPM_MRC_HASH = True, FSP_USES_CB_STACK = False, ENV_CACHE_AS_RAM = True,
     FSP_PLATFORM_MEMORY_SETTINGS_VERSIONS = False, HAVE_ACPI_RESUME = True, MMA = False,
     FSP_M_XIP = False, CONFIG_FSP_TEMP_RAM_SIZE = 0x10000, CONFIG_FSP_M_ADDR = 0xfef40000,
     FSPM_UPD_SIGNATURE = 0x4d5f4450554c4b4a \<rparr>"

definition sample_arch_upd :: FSPM_ARCH_UPD where
  "sample_arch_upd = \<lparr>
     StackBase = 0, StackSize = 0x20000, BootLoaderTolumSize = 0,
     BootMode = FSP_BOOT_MODE_OTHER 0, NvsBufferPtr = None \<rparr>"

definition sample_upd :: FSPM_UPD where
  "sample_upd = \<lparr> Signature = 0x4d5f4450554c4b4a, FspmArchUpd = sample_arch_upd,
     FspmConfig = [] \<rparr>"

definition sample_hdr :: fsp_header where
  "sample_hdr = \<lparr> fsp_revision = 7, image_base = 0xfef40000, cfg_region_offset = 0x400,
     memory_init_entry_offset = 0x1000 \<rparr>"

definition sample_training_data :: payload where
  "sample_training_data = replicate 128 0x5a"

definition sample_hobs :: hob_list where
  "sample_hobs = \<lparr>
     fsp_find_reserved_memory = \<lparr>base = 0x7a000000, size = 0x400000\<rparr>,
     fsp_find_nv_storage_data = Some sample_training_data \<rparr>"

definition sample_env :: env where
  "sample_env = \<lparr>
     car_region_start = 0xfef00000, car_unallocated_start = 0xfef10000,
     car_region_end = 0xfefc0000, program_start = 0xffe00000, program_end = 0xffe40000,
     temp_ram = 0xfef08000,
     vboot_recovery_mode_enabled = False, get_recovery_mode_retrain_switch = False,
     mrc_cache_current_mmap_leak =
       (\<lambda>k v. if k = MRC_TRAINING_DATA \<and> v = 7 then Some sample_training_data else None),
     mrc_cache_verify_hash = (\<lambda>d. d = sample_training_data),
     mainboard_version_hook = fsp_memory_mainboard_version,
     soc_version_hook = fsp_memory_soc_version,
     upd_region = (\<lambda>a. sample_upd),
     cbmem_overhead_size = 0x1000,
     platform_fsp_memory_init_params_cb = (\<lambda>upd v. upd),
     setup_mma = (\<lambda>c. c),
     fsp_raminit = (\<lambda>upd. (0, sample_hobs)),
     fsp_reset_requested = (\<lambda>st. 0x40000001 \<le> st \<and> st \<le> 0x40000008),
     cbmem_initialize_empty_id_size = (\<lambda>sz. 0x7a000000),
     cbmem_initialize_id_size = (\<lambda>sz. (0, 0x7a000000)),
     cbfs_locate = Some (0, 0x59000),
     rdev_mmap_full = (\<lambda>src. 0xffc00000),
     fsp_validate_component = (\<lambda>src. Some sample_hdr) \<rparr>"

definition sample_context :: fspm_context where
  "sample_context = \<lparr> header = sample_hdr,
     memmap = fsp_memory_init_memmap sample_cfg sample_env \<rparr>"

definition sample_env_miss :: env where
  "sample_env_miss = sample_env\<lparr>mrc_cache_current_mmap_leak := \<lambda>k v. None\<rparr>"

definition sample_env_recovery :: env where
  "sample_env_recovery = sample_env\<lparr>vboot_recovery_mode_enabled := True\<rparr>"

definition sample_env_bad_hash :: env where
  "sample_env_bad_hash = sample_env\<lparr>mrc_cache_verify_hash := \<lambda>d. False\<rparr>"

definition sample_hobs_no_data :: hob_list where
  "sample_hobs_no_data = sample_hobs\<lparr>fsp_find_nv_storage_data := None\<rparr>"

definition sample_env_no_data :: env where
  "sample_env_no_data = sample_env\<lparr>fsp_raminit := \<lambda>upd. (0, sample_hobs_no_data)\<rparr>"

definition sample_env_failing :: env where
  "sample_env_failing = sample_env\<lparr>fsp_raminit := \<lambda>upd. (0x80000007, sample_hobs)\<rparr>"

definition sample_env_big_stack :: env where
  "sample_env_big_stack =
     sample_env\<lparr>upd_region :=
       \<lambda>a. sample_upd\<lparr>FspmArchUpd := sample_arch_upd\<lparr>StackSize := 0xc0000\<rparr>\<rparr>\<rparr>"

definition sample_cfg_image_in_use :: config where
  "sample_cfg_image_in_use = sample_cfg\<lparr>CONFIG_FSP_M_ADDR := 0xfef08000\<rparr>"

definition sample_cfg_no_cache :: config where
  "sample_cfg_no_cache = sample_cfg\<lparr>CACHE_MRC_SETTINGS := False\<rparr>"

definition sample_cfg_fatal_assert :: config where
  "sample_cfg_fatal_assert =
     sample_cfg\<lparr>BOOT_DEVICE_MEMORY_MAPPED := False, FATAL_ASSERTS := True\<rparr>"

section \<open>Properties\<close>

subsection \<open>The region map\<close>

lemma check_region_overlap_CB_ERR_iff:
  "check_region_overlap mm b e = CB_ERR \<longleftrightarrow>
     (\<exists>r\<in>set mm. range_entry_base r < ucast e \<and> ucast b < range_entry_end r)"
  by (induction mm) (auto simp: not_le)

lemma intersecting_candidate_rejected:
  assumes "r \<in> set mm" and "candidate_region b e \<inter> entry_region r \<noteq> {}"
  shows "check_region_overlap mm b e = CB_ERR"
proof -
  from assms(2) have "range_entry_base r < ucast e \<and> ucast b < range_entry_end r"
    by (auto simp: candidate_region_def entry_region_def)
  with assms(1) show ?thesis
    unfolding check_region_overlap_CB_ERR_iff by blast
qed

lemma sample_memmap:
  "fsp_memory_init_memmap sample_cfg sample_env =
     [\<lparr>base = 0xfef00000, size = 0x10000\<rparr>, \<lparr>base = 0xffe00000, size = 0x40000\<rparr>]"
  by (simp add: fsp_memory_init_memmap_def sample_cfg_def sample_env_def
      memranges_insert_def memranges_init_empty_def)

lemma sample_car_entry:
  "\<lparr>base = 0xfef00000, size = 0x10000\<rparr> \<in> set (fsp_memory_init_memmap sample_cfg sample_env)"
  by (simp add: sample_memmap)

lemma uint_ucast_32_64: "uint (ucast (x :: 32 word) :: 64 word) = uint x"
  by (simp add: uint_up_ucast is_up)

lemma ucast_add_no_wrap:
  fixes a sz :: "32 word"
  assumes "a \<le> a + sz"
  shows "(ucast (a + sz) :: 64 word) = ucast a + ucast sz"
proof -
  from assms have "a \<le> sz + a" by (simp add: add.commute)
  then have lt: "uint sz + uint a < 2 ^ LENGTH(32)"
    by (rule no_olen_add' [THEN iffD1])
  then have s: "uint (sz + a) = uint sz + uint a"
    by (rule uint_add_lem [THEN iffD1])
  have "(2::int) ^ LENGTH(32) \<le> 2 ^ LENGTH(64)" by simp
  with lt have "uint sz + uint a < 2 ^ LENGTH(64)" by linarith
  then have "uint (ucast sz :: 64 word) + uint (ucast a :: 64 word) < 2 ^ LENGTH(64)"
    by (simp only: uint_ucast_32_64)
  then have "uint (ucast sz + ucast a :: 64 word) = uint (ucast sz :: 64 word) + uint (ucast a :: 64 word)"
    by (rule uint_add_lem [THEN iffD1])
  with s have "uint (ucast (sz + a) :: 64 word) = uint (ucast sz + ucast a :: 64 word)"
    by (simp only: uint_ucast_32_64)
  then have "(ucast (sz + a) :: 64 word) = ucast sz + ucast a"
    by (simp only: word_uint_eq_iff)
  then show ?thesis by (simp add: add.commute)
qed

lemma ucast_sub_no_wrap:
  fixes a sz :: "32 word"
  assumes "sz \<le> a"
  shows "(ucast (a - sz) :: 64 word) = ucast a - ucast sz"
proof -
  from assms have le: "uint sz \<le> uint a" by (simp add: word_le_def)
  then have s: "uint (a - sz) = uint a - uint sz"
    by (rule uint_sub_lem [THEN iffD1])
  from le have "uint (ucast sz :: 64 word) \<le> uint (ucast a :: 64 word)"
    by (simp only: uint_ucast_32_64)
  then have "uint (ucast a - ucast sz :: 64 word)
      = uint (ucast a :: 64 word) - uint (ucast sz :: 64 word)"
    by (rule uint_sub_lem [THEN iffD1])
  with s have "uint (ucast (a - sz) :: 64 word) = uint (ucast a - ucast sz :: 64 word)"
    by (simp only: uint_ucast_32_64)
  then show ?thesis by (simp only: word_uint_eq_iff)
qed

lemma stack_region_no_wrap:
  "StackSize arch \<le> car_region_end en \<Longrightarrow>
     stack_region en arch =
       candidate_region (car_region_end en - StackSize arch) (car_region_end en)"
  by (simp add: stack_region_def candidate_region_def ucast_sub_no_wrap)

lemma image_region_no_wrap:
  "CONFIG_FSP_M_ADDR cfg \<le> CONFIG_FSP_M_ADDR cfg + sz \<Longrightarrow>
     image_region cfg sz =
       candidate_region (CONFIG_FSP_M_ADDR cfg) (CONFIG_FSP_M_ADDR cfg + sz)"
  by (simp add: image_region_def candidate_region_def ucast_add_no_wrap)

lemma stack_carve_rejected:
  assumes "r \<in> set mm" and "StackSize arch \<le> car_region_end en"
    and "stack_region en arch \<inter> entry_region r \<noteq> {}"
  shows "setup_fsp_stack_frame en arch mm = (CB_ERR, arch)"
proof -
  from assms have "check_region_overlap mm (car_region_end en - StackSize arch)
      (car_region_end en) = CB_ERR"
    by (simp add: stack_region_no_wrap intersecting_candidate_rejected)
  then show ?thesis by (simp add: setup_fsp_stack_frame_def)
qed

lemma image_destination_rejected:
  assumes "r \<in> set mm" and "\<not> FSP_M_XIP cfg"
    and "CONFIG_FSP_M_ADDR cfg \<le> CONFIG_FSP_M_ADDR cfg + sz"
    and "image_region cfg sz \<inter> entry_region r \<noteq> {}"
  shows "fspm_get_dest cfg en mm sz src = (- 1, None, None)"
proof -
  from assms have "check_region_overlap mm (CONFIG_FSP_M_ADDR cfg)
      (CONFIG_FSP_M_ADDR cfg + sz) = CB_ERR"
    by (simp add: image_region_no_wrap intersecting_candidate_rejected)
  with assms(2) show ?thesis by (simp add: fspm_get_dest_def)
qed

lemma stack_rejection_kills_flow:
  assumes "r \<in> set (memmap ctx)"
    and "\<not> FSP_USES_CB_STACK cfg" and "ENV_CACHE_AS_RAM cfg"
    and "arch = FspmArchUpd (upd_region en (cfg_region_offset (header ctx) + image_base (header ctx)))"
    and "StackSize arch \<le> car_region_end en"
    and "stack_region en arch \<inter> entry_region r \<noteq> {}"
  shows "do_fsp_memory_init cfg en ctx s3wake =
           ([Ev_die_with_post_code POST_INVALID_VENDOR_BINARY],
            Inl (DIE_WITH_POST_CODE POST_INVALID_VENDOR_BINARY))"
proof -
  let ?a = "arch\<lparr>BootLoaderTolumSize := cbmem_overhead_size en\<rparr>"
  have "stack_region en ?a = stack_region en arch" by (simp add: stack_region_def)
  with assms have "setup_fsp_stack_frame en ?a (memmap ctx) = (CB_ERR, ?a)"
    by (intro stack_carve_rejected) simp_all
  with assms(2,3) have "fsp_fill_common_arch_params cfg en ?a s3wake v (memmap ctx)
      = Inr (CB_ERR, ?a)" for v
    by (simp add: fsp_fill_common_arch_params_def)
  then show ?thesis
    unfolding do_fsp_memory_init_def Let_def assms(4) by simp
qed

lemma image_rejection_kills_flow:
  assumes "r \<in> set (fsp_memory_init_memmap cfg en)"
    and "\<not> FSP_M_XIP cfg" and "cbfs_locate en = Some (src, sz)"
    and "CONFIG_FSP_M_ADDR cfg \<le> CONFIG_FSP_M_ADDR cfg + sz"
    and "image_region cfg sz \<inter> entry_region r \<noteq> {}"
  shows "fsp_memory_init cfg en s3wake = ([Ev_die], Inl DIE)"
proof -
  from assms have "fspm_get_dest cfg en (fsp_memory_init_memmap cfg en) sz src
      = (- 1, None, None)"
    by (intro image_destination_rejected) simp_all
  with assms(3) have "fsp_load_component cfg en (fsp_memory_init_memmap cfg en)
      = (CB_ERR, None)"
    by (simp add: fsp_load_component_def)
  then show ?thesis by (simp add: fsp_memory_init_def)
qed

lemma sample_memmap_variants:
  "fsp_memory_init_memmap sample_cfg_image_in_use sample_env_big_stack =
     fsp_memory_init_memmap sample_cfg sample_env"
  "memmap sample_context = fsp_memory_init_memmap sample_cfg sample_env"
  by (simp_all add: fsp_memory_init_memmap_def sample_cfg_image_in_use_def
      sample_env_big_stack_def sample_cfg_def sample_env_def sample_context_def)

text \<open>
  Claim C1, as the code has it. Ranges are half-open intervals of addresses. A candidate
  range that intersects an entry of the region map is rejected by \<open>check_region_overlap\<close>.
  For the two candidates of the flow, provided the range does not wrap around the 32-bit
  address space (the requested stack size is at most the end of the CAR region;
  \<^verbatim>\<open>CONFIG_FSP_M_ADDR\<close> plus the image size does not overflow): when the FSPM stack carved
  from the top of the CAR region intersects an entry, \<open>setup_fsp_stack_frame\<close> fails without
  setting the stack base and \<open>do_fsp_memory_init\<close> dies before the platform callback and the
  module are called; when the destination of a non-XIP FSP-M image intersects an entry,
  \<open>fspm_get_dest\<close> fails without storing a destination and \<open>fsp_memory_init\<close> dies before
  \<open>do_fsp_memory_init\<close> is entered. Hence every accepted candidate is disjoint from every
  entry of the map. The candidates are compared with the entries of the map only: they are
  never recorded in it.
\<close>

theorem candidates_checked_against_region_map:
  assumes "r \<in> set mm"
  shows "(candidate_region b e \<inter> entry_region r \<noteq> {} \<longrightarrow>
            check_region_overlap mm b e = CB_ERR)
       \<and> (StackSize arch \<le> car_region_end en \<and>
          stack_region en arch \<inter> entry_region r \<noteq> {} \<longrightarrow>
            setup_fsp_stack_frame en arch mm = (CB_ERR, arch))
       \<and> (\<not> FSP_M_XIP cfg \<and> CONFIG_FSP_M_ADDR cfg \<le> CONFIG_FSP_M_ADDR cfg + sz \<and>
          image_region cfg sz \<inter> entry_region r \<noteq> {} \<longrightarrow>
            fspm_get_dest cfg en mm sz src = (- 1, None, None))
       \<and> (mm = memmap ctx \<and> \<not> FSP_USES_CB_STACK cfg \<and> ENV_CACHE_AS_RAM cfg \<and>
          arch = FspmArchUpd
                   (upd_region en (cfg_region_offset (header ctx) + image_base (header ctx))) \<and>
          StackSize arch \<le> car_region_end en \<and>
          stack_region en arch \<inter> entry_region r \<noteq> {} \<longrightarrow>
            do_fsp_memory_init cfg en ctx s3wake =
              ([Ev_die_with_post_code POST_INVALID_VENDOR_BINARY],
               Inl (DIE_WITH_POST_CODE POST_INVALID_VENDOR_BINARY)))
       \<and> (mm = fsp_memory_init_memmap cfg en \<and> \<not> FSP_M_XIP cfg \<and>
          cbfs_locate en = Some (src, sz) \<and>
          CONFIG_FSP_M_ADDR cfg \<le> CONFIG_FSP_M_ADDR cfg + sz \<and>
          image_region cfg sz \<inter> entry_region r \<noteq> {} \<longrightarrow>
            fsp_memory_init cfg en s3wake = ([Ev_die], Inl DIE))
       \<and> (StackSize arch \<le> car_region_end en \<and>
          setup_fsp_stack_frame en arch mm = (CB_SUCCESS, arch') \<longrightarrow>
            arch' = arch\<lparr>StackBase := car_region_end en - StackSize arch\<rparr> \<and>
            stack_region en arch \<inter> entry_region r = {})
       \<and> (\<not> FSP_M_XIP cfg \<and> CONFIG_FSP_M_ADDR cfg \<le> CONFIG_FSP_M_ADDR cfg + sz \<and>
          fspm_get_dest cfg en mm sz src = (0, Some dest, h) \<longrightarrow>
            dest = CONFIG_FSP_M_ADDR cfg \<and>
            image_region cfg sz \<inter> entry_region r = {})"
proof (intro conjI impI)
  assume "candidate_region b e \<inter> entry_region r \<noteq> {}"
  with assms show "check_region_overlap mm b e = CB_ERR"
    by (rule intersecting_candidate_rejected)
next
  assume "StackSize arch \<le> car_region_end en \<and>
          stack_region en arch \<inter> entry_region r \<noteq> {}"
  with assms show "setup_fsp_stack_frame en arch mm = (CB_ERR, arch)"
    using stack_carve_rejected [of r mm arch en] by blast
next
  assume "\<not> FSP_M_XIP cfg \<and> CONFIG_FSP_M_ADDR cfg \<le> CONFIG_FSP_M_ADDR cfg + sz \<and>
          image_region cfg sz \<inter> entry_region r \<noteq> {}"
  with assms show "fspm_get_dest cfg en mm sz src = (- 1, None, None)"
    using image_destination_rejected [of r mm cfg sz en src] by blast
next
  assume a: "mm = memmap ctx \<and> \<not> FSP_USES_CB_STACK cfg \<and> ENV_CACHE_AS_RAM cfg \<and>
          arch = FspmArchUpd
                   (upd_region en (cfg_region_offset (header ctx) + image_base (header ctx))) \<and>
          StackSize arch \<le> car_region_end en \<and>
          stack_region en arch \<inter> entry_region r \<noteq> {}"
  with assms have "r \<in> set (memmap ctx)" by simp
  with a show "do_fsp_memory_init cfg en ctx s3wake =
              ([Ev_die_with_post_code POST_INVALID_VENDOR_BINARY],
               Inl (DIE_WITH_POST_CODE POST_INVALID_VENDOR_BINARY))"
    by (intro stack_rejection_kills_flow [of r ctx cfg arch en]) blast+
next
  assume a: "mm = fsp_memory_init_memmap cfg en \<and> \<not> FSP_M_XIP cfg \<and>
          cbfs_locate en = Some (src, sz) \<and>
          CONFIG_FSP_M_ADDR cfg \<le> CONFIG_FSP_M_ADDR cfg + sz \<and>
          image_region cfg sz \<inter> entry_region r \<noteq> {}"
  with assms have "r \<in> set (fsp_memory_init_memmap cfg en)" by simp
  with a show "fsp_memory_init cfg en s3wake = ([Ev_die], Inl DIE)"
    by (intro image_rejection_kills_flow [of r cfg en src sz]) blast+
next
  assume a: "StackSize arch \<le> car_region_end en \<and>
          setup_fsp_stack_frame en arch mm = (CB_SUCCESS, arch')"
  then show "arch' = arch\<lparr>StackBase := car_region_end en - StackSize arch\<rparr>"
    by (auto simp: setup_fsp_stack_frame_def Let_def split: if_splits)
  show "stack_region en arch \<inter> entry_region r = {}"
  proof (rule ccontr)
    assume "stack_region en arch \<inter> entry_region r \<noteq> {}"
    with assms a have "setup_fsp_stack_frame en arch mm = (CB_ERR, arch)"
      using stack_carve_rejected [of r mm arch en] by blast
    with a show False by simp
  qed
next
  assume a: "\<not> FSP_M_XIP cfg \<and> CONFIG_FSP_M_ADDR cfg \<le> CONFIG_FSP_M_ADDR cfg + sz \<and>
          fspm_get_dest cfg en mm sz src = (0, Some dest, h)"
  then show "dest = CONFIG_FSP_M_ADDR cfg"
    by (auto simp: fspm_get_dest_def Let_def split: if_splits)
  show "image_region cfg sz \<inter> entry_region r = {}"
  proof (rule ccontr)
    assume "image_region cfg sz \<inter> entry_region r \<noteq> {}"
    with assms a have "fspm_get_dest cfg en mm sz src = (- 1, None, None)"
      using image_destination_rejected [of r mm cfg sz en src] by blast
    with a show False by simp
  qed
qed

theorem candidates_checked_against_region_map_witness:
  "\<lparr>base = 0xfef00000, size = 0x10000\<rparr> \<in> set (fsp_memory_init_memmap sample_cfg sample_env)
   \<and> check_region_overlap (fsp_memory_init_memmap sample_cfg sample_env)
        0xfef08000 0xfef09000 = CB_ERR
   \<and> setup_fsp_stack_frame sample_env_big_stack (sample_arch_upd\<lparr>StackSize := 0xc0000\<rparr>)
        (fsp_memory_init_memmap sample_cfg sample_env)
        = (CB_ERR, sample_arch_upd\<lparr>StackSize := 0xc0000\<rparr>)
   \<and> fspm_get_dest sample_cfg_image_in_use sample_env_big_stack
        (fsp_memory_init_memmap sample_cfg sample_env) 0x59000 0 = (- 1, None, None)
   \<and> do_fsp_memory_init sample_cfg_image_in_use sample_env_big_stack sample_context False =
        ([Ev_die_with_post_code POST_INVALID_VENDOR_BINARY],
         Inl (DIE_WITH_POST_CODE POST_INVALID_VENDOR_BINARY))
   \<and> fsp_memory_init sample_cfg_image_in_use sample_env_big_stack False = ([Ev_die], Inl DIE)
   \<and> setup_fsp_stack_frame sample_env sample_arch_upd
        (fsp_memory_init_memmap sample_cfg sample_env)
        = (CB_SUCCESS, sample_arch_upd\<lparr>StackBase := 0xfefa0000\<rparr>)
   \<and> stack_region sample_env sample_arch_upd
        \<inter> entry_region \<lparr>base = 0xfef00000, size = 0x10000\<rparr> = {}
   \<and> fspm_get_dest sample_cfg sample_env
        (fsp_memory_init_memmap sample_cfg sample_env) 0x59000 0 = (0, Some 0xfef40000, None)
   \<and> image_region sample_cfg 0x59000
        \<inter> entry_region \<lparr>base = 0xfef00000, size = 0x10000\<rparr> = {}"
proof -
  let ?r = "\<lparr>base = 0xfef00000, size = 0x10000\<rparr> :: range_entry"
  let ?mm = "fsp_memory_init_memmap sample_cfg sample_env"
  let ?big = "sample_arch_upd\<lparr>StackSize := 0xc0000\<rparr>"
  note rej = candidates_checked_against_region_map [OF sample_car_entry,
      where b = "0xfef08000" and e = "0xfef09000" and en = sample_env_big_stack
        and arch = ?big and cfg = sample_cfg_image_in_use and sz = "0x59000" and src = 0
        and ctx = sample_context and ?s3wake = False]
  note acc = candidates_checked_against_region_map [OF sample_car_entry,
      where en = sample_env and arch = sample_arch_upd and cfg = sample_cfg
        and sz = "0x59000" and src = 0
        and arch' = "sample_arch_upd\<lparr>StackBase := 0xfefa0000\<rparr>"
        and dest = "0xfef40000" and h = None]
  have isect: "candidate_region 0xfef08000 0xfef09000 \<inter> entry_region ?r \<noteq> {}"
    by (simp add: candidate_region_def entry_region_def range_entry_base_def
        range_entry_end_def)
  have big: "StackSize ?big \<le> car_region_end sample_env_big_stack"
    "stack_region sample_env_big_stack ?big \<inter> entry_region ?r \<noteq> {}"
    "?big = FspmArchUpd (upd_region sample_env_big_stack
       (cfg_region_offset (header sample_context) + image_base (header sample_context)))"
    "\<not> FSP_USES_CB_STACK sample_cfg_image_in_use" "ENV_CACHE_AS_RAM sample_cfg_image_in_use"
    by (simp_all add: stack_region_def entry_region_def range_entry_base_def
        range_entry_end_def sample_env_big_stack_def sample_env_def sample_arch_upd_def
        sample_upd_def sample_cfg_image_in_use_def sample_cfg_def)
  have img: "\<not> FSP_M_XIP sample_cfg_image_in_use"
    "CONFIG_FSP_M_ADDR sample_cfg_image_in_use \<le> CONFIG_FSP_M_ADDR sample_cfg_image_in_use + 0x59000"
    "image_region sample_cfg_image_in_use 0x59000 \<inter> entry_region ?r \<noteq> {}"
    "cbfs_locate sample_env_big_stack = Some (0, 0x59000)"
    by (simp_all add: image_region_def entry_region_def range_entry_base_def
        range_entry_end_def sample_cfg_image_in_use_def sample_cfg_def
        sample_env_big_stack_def sample_env_def)
  have stack: "setup_fsp_stack_frame sample_env sample_arch_upd ?mm
        = (CB_SUCCESS, sample_arch_upd\<lparr>StackBase := 0xfefa0000\<rparr>)"
    unfolding sample_memmap
    by (simp add: setup_fsp_stack_frame_def range_entry_base_def range_entry_end_def
        sample_env_def sample_arch_upd_def)
  have dest: "fspm_get_dest sample_cfg sample_env ?mm 0x59000 0 = (0, Some 0xfef40000, None)"
    unfolding sample_memmap
    by (simp add: fspm_get_dest_def range_entry_base_def range_entry_end_def sample_cfg_def)
  have ok: "StackSize sample_arch_upd \<le> car_region_end sample_env"
    "\<not> FSP_M_XIP sample_cfg"
    "CONFIG_FSP_M_ADDR sample_cfg \<le> CONFIG_FSP_M_ADDR sample_cfg + 0x59000"
    by (simp_all add: sample_cfg_def sample_env_def sample_arch_upd_def)
  from rej isect have 1: "check_region_overlap ?mm 0xfef08000 0xfef09000 = CB_ERR"
    by blast
  from rej big have 2: "setup_fsp_stack_frame sample_env_big_stack ?big ?mm = (CB_ERR, ?big)"
    by blast
  from rej img have 3: "fspm_get_dest sample_cfg_image_in_use sample_env_big_stack ?mm
      0x59000 0 = (- 1, None, None)"
    by blast
  from rej big sample_memmap_variants(2) have 4:
    "do_fsp_memory_init sample_cfg_image_in_use sample_env_big_stack sample_context False =
        ([Ev_die_with_post_code POST_INVALID_VENDOR_BINARY],
         Inl (DIE_WITH_POST_CODE POST_INVALID_VENDOR_BINARY))"
    by simp
  from rej img sample_memmap_variants(1) have 5:
    "fsp_memory_init sample_cfg_image_in_use sample_env_big_stack False = ([Ev_die], Inl DIE)"
    by simp
  from acc ok stack have 6: "stack_region sample_env sample_arch_upd \<inter> entry_region ?r = {}"
    by blast
  from acc ok dest have 7: "image_region sample_cfg 0x59000 \<inter> entry_region ?r = {}"
    by blast
  from sample_car_entry 1 2 3 4 5 6 7 stack dest show ?thesis by blast
qed

text \<open>
  Claim C1 as stated fails: on the sample platform an FSP-M image of \<open>0x70000\<close> bytes at
  \<open>0xfef40000\<close> and the stack \<open>0xfefa0000 .. 0xfefc0000\<close> are both accepted against the
  seeded map, and the address \<open>0xfefa8000\<close> lies in both.
\<close>

theorem accepted_candidates_overlap_counterexample:
  "fspm_get_dest sample_cfg sample_env (fsp_memory_init_memmap sample_cfg sample_env)
       0x70000 0 = (0, Some 0xfef40000, None)
   \<and> setup_fsp_stack_frame sample_env sample_arch_upd
       (fsp_memory_init_memmap sample_cfg sample_env)
       = (CB_SUCCESS, sample_arch_upd\<lparr>StackBase := 0xfefa0000\<rparr>)
   \<and> 0xfefa8000 \<in> candidate_region 0xfef40000 (0xfef40000 + 0x70000)
   \<and> 0xfefa8000 \<in> candidate_region 0xfefa0000 0xfefc0000"
  unfolding sample_memmap
  by (simp add: fspm_get_dest_def setup_fsp_stack_frame_def candidate_region_def
      range_entry_base_def range_entry_end_def sample_cfg_def sample_env_def sample_arch_upd_def)

text \<open>
  The condition on wrap-around is needed: an image of \<open>0x200000\<close> bytes at \<open>0xffe20000\<close>
  starts inside the program entry, its end wraps around to \<open>0x20000\<close>, and the destination
  is accepted.
\<close>

lemma wrapping_image_accepted:
  "fspm_get_dest (sample_cfg\<lparr>CONFIG_FSP_M_ADDR := 0xffe20000\<rparr>) sample_env
     (fsp_memory_init_memmap sample_cfg sample_env) 0x200000 0 = (0, Some 0xffe20000, None)
   \<and> 0xffe20000 \<in> image_region (sample_cfg\<lparr>CONFIG_FSP_M_ADDR := 0xffe20000\<rparr>) 0x200000
   \<and> 0xffe20000 \<in> entry_region \<lparr>base = 0xffe00000, size = 0x40000\<rparr>"
  unfolding sample_memmap
  by (simp add: fspm_get_dest_def image_region_def entry_region_def range_entry_base_def
      range_entry_end_def sample_cfg_def)

subsection \<open>The region map query\<close>

lemma check_region_overlap_skip:
  "ucast e \<le> range_entry_base r \<or> range_entry_end r \<le> ucast b \<Longrightarrow>
     check_region_overlap (xs @ r # ys) b e = check_region_overlap (xs @ ys) b e"
  by (induction xs) auto

text \<open>
  Claim C10, as the code has it. The check compares half-open intervals: an entry whose
  base equals the end of the candidate, or whose end equals the begin of the candidate, never
  makes the check report an overlap (the answer is the same with that entry removed). A
  zero-length candidate, begin equal to end, is reported as an overlap exactly when it lies
  strictly inside an entry, and is accepted otherwise.
\<close>

theorem overlap_check_touching_and_empty:
  "(ucast e = range_entry_base r \<or> ucast b = range_entry_end r \<longrightarrow>
      check_region_overlap (xs @ r # ys) b e = check_region_overlap (xs @ ys) b e)
   \<and> (check_region_overlap mm p p = CB_ERR \<longleftrightarrow>
        (\<exists>r\<in>set mm. range_entry_base r < ucast p \<and> ucast p < range_entry_end r))"
  using check_region_overlap_skip [of e r b xs ys] check_region_overlap_CB_ERR_iff [of mm p p]
  by auto

theorem overlap_check_touching_and_empty_witness:
  "ucast (0xfef00000 :: uintptr_t) = range_entry_base \<lparr>base = 0xfef00000, size = 0x10000\<rparr>
   \<and> check_region_overlap
        ([] @ \<lparr>base = 0xfef00000, size = 0x10000\<rparr> # [\<lparr>base = 0xffe00000, size = 0x40000\<rparr>])
        0xfee00000 0xfef00000 = CB_SUCCESS
   \<and> \<lparr>base = 0xfef00000, size = 0x10000\<rparr> \<in> set [\<lparr>base = 0xfef00000, size = 0x10000\<rparr>]
   \<and> range_entry_base \<lparr>base = 0xfef00000, size = 0x10000\<rparr> < ucast (0xfef04000 :: uintptr_t)
   \<and> ucast (0xfef04000 :: uintptr_t) < range_entry_end \<lparr>base = 0xfef00000, size = 0x10000\<rparr>
   \<and> check_region_overlap [\<lparr>base = 0xfef00000, size = 0x10000\<rparr>] 0xfef04000 0xfef04000
        = CB_ERR"
  using overlap_check_touching_and_empty
    [where e = "0xfef00000" and r = "\<lparr>base = 0xfef00000, size = 0x10000\<rparr>"
       and b = "0xfee00000" and xs = "[]" and ys = "[\<lparr>base = 0xffe00000, size = 0x40000\<rparr>]"
       and mm = "[\<lparr>base = 0xfef00000, size = 0x10000\<rparr>]" and p = "0xfef04000"]
  by (simp add: range_entry_base_def range_entry_end_def)

text \<open>
  Claim C10 as stated fails: the zero-length candidate at \<open>0x1800\<close> lies inside the entry
  \<open>0x1000 .. 0x2000\<close> and is reported as an overlap.
\<close>

theorem zero_length_candidate_counterexample:
  "check_region_overlap [\<lparr>base = 0x1000, size = 0x1000\<rparr>] 0x1800 0x1800 = CB_ERR"
  by (simp add: range_entry_base_def range_entry_end_def)

subsection \<open>The settings version\<close>

lemma nibble_mask32: "(0xf :: 32 word) = mask 4" "(0xff :: 32 word) = mask 8"
  by (simp_all add: mask_eq_exp_minus_1)

lemma nibble_mask8: "(0xf :: 8 word) = mask 4"
  by (simp add: mask_eq_exp_minus_1)

lemma settings_version_enabled:
  "fsp_memory_settings_version (cfg\<lparr>FSP_PLATFORM_MEMORY_SETTINGS_VERSIONS := True\<rparr>) e hdr =
     (fsp_revision hdr AND NOT (mask 8)) OR
     push_bit 4 (ucast (mask 4 AND mainboard_version_hook e)) OR
     ucast (mask 4 AND soc_version_hook e)"
  by (simp add: fsp_memory_settings_version_def nibble_mask32 nibble_mask8 or.assoc)

lemma version_soc_nibble:
  fixes r :: "32 word" and m s :: "8 word"
  shows "((r AND NOT (mask 8)) OR push_bit 4 (ucast (mask 4 AND m)) OR ucast (mask 4 AND s)) AND mask 4
     = ucast (s AND mask 4)"
  by (rule bit_eqI) (auto simp: bit_simps)

lemma version_mainboard_nibble:
  fixes r :: "32 word" and m s :: "8 word"
  shows "drop_bit 4 ((r AND NOT (mask 8)) OR push_bit 4 (ucast (mask 4 AND m)) OR ucast (mask 4 AND s)) AND mask 4
     = ucast (m AND mask 4)"
  by (rule bit_eqI) (auto simp: bit_simps)

lemma version_upper_bits:
  fixes r :: "32 word" and m s :: "8 word"
  shows "drop_bit 8 ((r AND NOT (mask 8)) OR push_bit 4 (ucast (mask 4 AND m)) OR ucast (mask 4 AND s))
     = drop_bit 8 r"
  by (rule bit_eqI) (auto simp: bit_simps dest: bit_imp_le_length)

text \<open>
  Claim C6. With platform versioning disabled the settings version is the revision of the
  header, so revision \<open>0x00000005\<close> gives \<open>0x00000005\<close>. With platform versioning enabled,
  mainboard version 2 and SoC version 9, revision \<open>0x00000005\<close> gives \<open>0x00000029\<close>; in
  general the low nibble is the low nibble of the SoC version, the next nibble the low nibble
  of the mainboard version, and the upper 24 bits are those of the revision.
\<close>

theorem settings_version_derivation:
  "fsp_memory_settings_version (cfg\<lparr>FSP_PLATFORM_MEMORY_SETTINGS_VERSIONS := False\<rparr>) e hdr
      = fsp_revision hdr
   \<and> fsp_memory_settings_version (cfg\<lparr>FSP_PLATFORM_MEMORY_SETTINGS_VERSIONS := False\<rparr>) e
        (hdr\<lparr>fsp_revision := 0x00000005\<rparr>) = 0x00000005
   \<and> fsp_memory_settings_version (cfg\<lparr>FSP_PLATFORM_MEMORY_SETTINGS_VERSIONS := True\<rparr>)
        (e\<lparr>mainboard_version_hook := 2, soc_version_hook := 9\<rparr>)
        (hdr\<lparr>fsp_revision := 0x00000005\<rparr>) = 0x00000029
   \<and> fsp_memory_settings_version (cfg\<lparr>FSP_PLATFORM_MEMORY_SETTINGS_VERSIONS := True\<rparr>) e hdr
        AND 0xf = ucast (soc_version_hook e AND 0xf)
   \<and> drop_bit 4
        (fsp_memory_settings_version (cfg\<lparr>FSP_PLATFORM_MEMORY_SETTINGS_VERSIONS := True\<rparr>) e hdr)
        AND 0xf = ucast (mainboard_version_hook e AND 0xf)
   \<and> drop_bit 8
        (fsp_memory_settings_version (cfg\<lparr>FSP_PLATFORM_MEMORY_SETTINGS_VERSIONS := True\<rparr>) e hdr)
        = drop_bit 8 (fsp_revision hdr)"
proof (intro conjI)
  show "fsp_memory_settings_version (cfg\<lparr>FSP_PLATFORM_MEMORY_SETTINGS_VERSIONS := False\<rparr>) e hdr
      = fsp_revision hdr"
    by (simp add: fsp_memory_settings_version_def)
  show "fsp_memory_settings_version (cfg\<lparr>FSP_PLATFORM_MEMORY_SETTINGS_VERSIONS := False\<rparr>) e
        (hdr\<lparr>fsp_revision := 0x00000005\<rparr>) = 0x00000005"
    by (simp add: fsp_memory_settings_version_def)
  show "fsp_memory_settings_version (cfg\<lparr>FSP_PLATFORM_MEMORY_SETTINGS_VERSIONS := True\<rparr>)
        (e\<lparr>mainboard_version_hook := 2, soc_version_hook := 9\<rparr>)
        (hdr\<lparr>fsp_revision := 0x00000005\<rparr>) = 0x00000029"
    by (simp add: fsp_memory_settings_version_def)
  show "fsp_memory_settings_version (cfg\<lparr>FSP_PLATFORM_MEMORY_SETTINGS_VERSIONS := True\<rparr>) e hdr
        AND 0xf = ucast (soc_version_hook e AND 0xf)"
    unfolding settings_version_enabled nibble_mask32 nibble_mask8 by (rule version_soc_nibble)
  show "drop_bit 4
        (fsp_memory_settings_version (cfg\<lparr>FSP_PLATFORM_MEMORY_SETTINGS_VERSIONS := True\<rparr>) e hdr)
        AND 0xf = ucast (mainboard_version_hook e AND 0xf)"
    unfolding settings_version_enabled nibble_mask32 nibble_mask8
    by (rule version_mainboard_nibble)
  show "drop_bit 8
        (fsp_memory_settings_version (cfg\<lparr>FSP_PLATFORM_MEMORY_SETTINGS_VERSIONS := True\<rparr>) e hdr)
        = drop_bit 8 (fsp_revision hdr)"
    unfolding settings_version_enabled by (rule version_upper_bits)
qed

theorem settings_version_derivation_witness:
  "fsp_memory_settings_version sample_cfg sample_env sample_hdr = 7
   \<and> fsp_memory_settings_version (sample_cfg\<lparr>FSP_PLATFORM_MEMORY_SETTINGS_VERSIONS := True\<rparr>)
        (sample_env\<lparr>mainboard_version_hook := 2, soc_version_hook := 9\<rparr>)
        (sample_hdr\<lparr>fsp_revision := 0x00000005\<rparr>) = 0x00000029"
  using settings_version_derivation [of sample_cfg sample_env sample_hdr]
  by (simp add: sample_cfg_def sample_hdr_def)

subsection \<open>Evaluating the sample platform\<close>

lemmas flow_defs =
  do_fsp_memory_init_def fsp_memory_settings_version_def fsp_fill_common_arch_params_def
  setup_fsp_stack_frame_def fsp_fill_mrc_cache_def fsp_handle_reset_def
  do_fsp_post_memory_init_def save_memory_training_data_def range_entry_base_def
  range_entry_end_def range_entry_size_def FSP_SUCCESS_def Let_def

lemma sample_cold_run:
  "do_fsp_memory_init sample_cfg sample_env sample_context False =
     ([Ev_platform_fsp_memory_init_params_cb, Ev_fsp_raminit 0 sample_hobs,
       Ev_fsp_handle_reset 0, Ev_cbmem_initialize_empty_id_size 0x400000,
       Ev_mrc_cache_stash_data MRC_TRAINING_DATA 7 sample_training_data,
       Ev_mrc_cache_update_hash sample_training_data,
       Ev_romstage_handoff_init False], Inr ())"
  unfolding sample_context_def sample_memmap
  by (simp add: flow_defs sample_cfg_def sample_env_def sample_arch_upd_def sample_upd_def
      sample_hdr_def sample_hobs_def)

lemma sample_resume_run:
  "do_fsp_memory_init sample_cfg sample_env sample_context True =
     ([Ev_platform_fsp_memory_init_params_cb, Ev_fsp_raminit 0 sample_hobs,
       Ev_fsp_handle_reset 0, Ev_cbmem_initialize_id_size 0x400000,
       Ev_romstage_handoff_init True], Inr ())"
  unfolding sample_context_def sample_memmap
  by (simp add: flow_defs sample_cfg_def sample_env_def sample_arch_upd_def sample_upd_def
      sample_hdr_def sample_hobs_def)

lemma sample_fill_resume_miss:
  "fsp_fill_common_arch_params sample_cfg sample_env_miss
     (sample_arch_upd\<lparr>BootLoaderTolumSize := 0x1000\<rparr>) True 7
     (fsp_memory_init_memmap sample_cfg sample_env) =
   Inr (CB_SUCCESS, sample_arch_upd\<lparr>BootLoaderTolumSize := 0x1000, StackBase := 0xfefa0000,
          BootMode := FSP_BOOT_ON_S3_RESUME\<rparr>)"
  unfolding sample_memmap
  by (simp add: flow_defs sample_cfg_def sample_env_def sample_arch_upd_def sample_env_miss_def)

lemma sample_fill_cold_hit:
  "fsp_fill_common_arch_params sample_cfg sample_env sample_arch_upd False 7
     (fsp_memory_init_memmap sample_cfg sample_env) =
   Inr (CB_SUCCESS, sample_arch_upd\<lparr>StackBase := 0xfefa0000,
          NvsBufferPtr := Some sample_training_data,
          BootMode := FSP_BOOT_ASSUMING_NO_CONFIGURATION_CHANGES\<rparr>)"
  unfolding sample_memmap
  by (simp add: flow_defs sample_cfg_def sample_env_def sample_arch_upd_def)

lemma sample_fill_cold_miss:
  "fsp_fill_common_arch_params sample_cfg sample_env_miss sample_arch_upd False 7
     (fsp_memory_init_memmap sample_cfg sample_env) =
   Inr (CB_SUCCESS, sample_arch_upd\<lparr>StackBase := 0xfefa0000,
          BootMode := FSP_BOOT_WITH_FULL_CONFIGURATION\<rparr>)"
  unfolding sample_memmap
  by (simp add: flow_defs sample_cfg_def sample_env_def sample_arch_upd_def sample_env_miss_def)

lemma sample_fill_stack_overlap:
  "fsp_fill_common_arch_params sample_cfg sample_env (sample_arch_upd\<lparr>StackSize := 0xc0000\<rparr>)
     False 7 (fsp_memory_init_memmap sample_cfg sample_env) =
   Inr (CB_ERR, sample_arch_upd\<lparr>StackSize := 0xc0000\<rparr>)"
  unfolding sample_memmap
  by (simp add: flow_defs sample_cfg_def sample_env_def sample_arch_upd_def)

lemma sample_no_data_run:
  "do_fsp_memory_init sample_cfg sample_env_no_data sample_context False =
     ([Ev_platform_fsp_memory_init_params_cb, Ev_fsp_raminit 0 sample_hobs_no_data,
       Ev_fsp_handle_reset 0, Ev_cbmem_initialize_empty_id_size 0x400000,
       Ev_romstage_handoff_init False], Inr ())"
  unfolding sample_context_def sample_memmap
  by (simp add: flow_defs sample_cfg_def sample_env_def sample_arch_upd_def sample_upd_def
      sample_hdr_def sample_hobs_def sample_env_no_data_def sample_hobs_no_data_def)

lemma sample_failing_run:
  "do_fsp_memory_init sample_cfg sample_env_failing sample_context False =
     ([Ev_platform_fsp_memory_init_params_cb, Ev_fsp_raminit 0x80000007 sample_hobs,
       Ev_fsp_handle_reset 0x80000007, Ev_die_with_post_code POST_RAM_FAILURE],
      Inl (DIE_WITH_POST_CODE POST_RAM_FAILURE))"
  unfolding sample_context_def sample_memmap
  by (simp add: flow_defs sample_cfg_def sample_env_def sample_arch_upd_def sample_upd_def
      sample_hdr_def sample_hobs_def sample_env_failing_def)

lemma sample_fill_recovery:
  "fsp_fill_common_arch_params sample_cfg sample_env_recovery sample_arch_upd False 7
     (fsp_memory_init_memmap sample_cfg sample_env) =
   Inr (CB_SUCCESS, sample_arch_upd\<lparr>StackBase := 0xfefa0000,
          BootMode := FSP_BOOT_WITH_FULL_CONFIGURATION\<rparr>)"
  unfolding sample_memmap
  by (simp add: flow_defs sample_cfg_def sample_env_def sample_arch_upd_def
      sample_env_recovery_def)

lemma sample_fill_resume_hit:
  "fsp_fill_common_arch_params sample_cfg sample_env sample_arch_upd True 7
     (fsp_memory_init_memmap sample_cfg sample_env) =
   Inr (CB_SUCCESS, sample_arch_upd\<lparr>StackBase := 0xfefa0000,
          NvsBufferPtr := Some sample_training_data,
          BootMode := FSP_BOOT_ON_S3_RESUME\<rparr>)"
  unfolding sample_memmap
  by (simp add: flow_defs sample_cfg_def sample_env_def sample_arch_upd_def)

lemma sample_stack_placed:
  "check_region_overlap (fsp_memory_init_memmap sample_cfg sample_env)
     (car_region_end sample_env - StackSize sample_arch_upd) (car_region_end sample_env)
     = CB_SUCCESS"
  "check_region_overlap (fsp_memory_init_memmap sample_cfg sample_env)
     (car_region_end sample_env_miss - StackSize sample_arch_upd)
     (car_region_end sample_env_miss) = CB_SUCCESS"
  "check_region_overlap (fsp_memory_init_memmap sample_cfg sample_env)
     (car_region_end sample_env - StackSize (sample_arch_upd\<lparr>StackSize := 0xc0000\<rparr>))
     (car_region_end sample_env) = CB_ERR"
  unfolding sample_memmap
  by (simp_all add: range_entry_base_def range_entry_end_def sample_env_def
      sample_env_miss_def sample_arch_upd_def)

subsection \<open>The training cache and the boot mode\<close>

lemma fsp_fill_mrc_cache_halts:
  assumes "CACHE_MRC_SETTINGS cfg"
    and "\<not> (vboot_recovery_mode_enabled e \<and>
            (\<not> HAS_RECOVERY_MRC_CACHE cfg \<or> get_recovery_mode_retrain_switch e))"
    and "\<not> BOOT_DEVICE_MEMORY_MAPPED cfg" and "FATAL_ASSERTS cfg"
  shows "fsp_fill_mrc_cache cfg e arch v = Inl HLT"
  using assms by (simp add: fsp_fill_mrc_cache_def Let_def)

lemma fsp_fill_mrc_cache_returns:
  assumes "\<not> (CACHE_MRC_SETTINGS cfg \<and>
            \<not> (vboot_recovery_mode_enabled e \<and>
               (\<not> HAS_RECOVERY_MRC_CACHE cfg \<or> get_recovery_mode_retrain_switch e)) \<and>
            \<not> BOOT_DEVICE_MEMORY_MAPPED cfg \<and> FATAL_ASSERTS cfg)"
  shows "\<exists>p. fsp_fill_mrc_cache cfg e arch v = Inr (arch\<lparr>NvsBufferPtr := p\<rparr>) \<and>
           (\<forall>d. p = Some d \<longleftrightarrow>
              CACHE_MRC_SETTINGS cfg \<and>
              \<not> (vboot_recovery_mode_enabled e \<and>
                 (\<not> HAS_RECOVERY_MRC_CACHE cfg \<or> get_recovery_mode_retrain_switch e)) \<and>
              mrc_cache_current_mmap_leak e MRC_TRAINING_DATA v = Some d \<and>
              (FSP2_0_USES_TPM_MRC_HASH cfg \<longrightarrow> mrc_cache_verify_hash e d))"
proof (cases "mrc_cache_current_mmap_leak e MRC_TRAINING_DATA v")
  case None
  with assms show ?thesis
    by (intro exI [of _ None]) (auto simp: fsp_fill_mrc_cache_def Let_def)
next
  case (Some d0)
  show ?thesis
  proof (cases "CACHE_MRC_SETTINGS cfg \<and>
            \<not> (vboot_recovery_mode_enabled e \<and>
               (\<not> HAS_RECOVERY_MRC_CACHE cfg \<or> get_recovery_mode_retrain_switch e)) \<and>
            (FSP2_0_USES_TPM_MRC_HASH cfg \<longrightarrow> mrc_cache_verify_hash e d0)")
    case True
    with assms Some show ?thesis
      by (intro exI [of _ "Some d0"]) (auto simp: fsp_fill_mrc_cache_def Let_def)
  next
    case False
    with assms Some show ?thesis
      by (intro exI [of _ None]) (auto simp: fsp_fill_mrc_cache_def Let_def)
  qed
qed

lemma fsp_fill_mrc_cache_Inl_iff:
  "fsp_fill_mrc_cache cfg e arch v = Inl s \<longleftrightarrow>
     s = HLT \<and> (CACHE_MRC_SETTINGS cfg \<and>
            \<not> (vboot_recovery_mode_enabled e \<and>
               (\<not> HAS_RECOVERY_MRC_CACHE cfg \<or> get_recovery_mode_retrain_switch e)) \<and>
            \<not> BOOT_DEVICE_MEMORY_MAPPED cfg \<and> FATAL_ASSERTS cfg)"
proof (cases "(CACHE_MRC_SETTINGS cfg \<and>
            \<not> (vboot_recovery_mode_enabled e \<and>
               (\<not> HAS_RECOVERY_MRC_CACHE cfg \<or> get_recovery_mode_retrain_switch e)) \<and>
            \<not> BOOT_DEVICE_MEMORY_MAPPED cfg \<and> FATAL_ASSERTS cfg)")
  case True
  then have "fsp_fill_mrc_cache cfg e arch v = Inl HLT"
    by (intro fsp_fill_mrc_cache_halts) simp_all
  with True show ?thesis by auto
next
  case False
  from fsp_fill_mrc_cache_returns [OF False, of arch v]
  obtain q where "fsp_fill_mrc_cache cfg e arch v = Inr (arch\<lparr>NvsBufferPtr := q\<rparr>)"
    by blast
  with False show ?thesis by simp
qed

text \<open>
  Claim C9. \<open>fsp_fill_mrc_cache\<close> clears the cached-data pointer first: the pointer it
  was given does not matter. It returns on every path but one, a failed assertion that is
  configured to be fatal, which is reached only with caching enabled and no recovery bypass.
  With caching disabled, and with the recovery bypass, it returns with the pointer null.
  Whenever it returns, only the pointer has changed, and the pointer is a payload \<open>d\<close>
  exactly when caching is enabled, recovery mode does not bypass the cache, the lookup for the
  training data of this version found \<open>d\<close>, and \<open>d\<close> passed hash verification where that
  is configured. In every other case it is null.
\<close>

theorem fill_mrc_cache_pointer:
  "fsp_fill_mrc_cache cfg e (arch\<lparr>NvsBufferPtr := p\<rparr>) v = fsp_fill_mrc_cache cfg e arch v
   \<and> (fsp_fill_mrc_cache cfg e arch v = Inr arch' \<longrightarrow>
        arch' = arch\<lparr>NvsBufferPtr := NvsBufferPtr arch'\<rparr> \<and>
        (NvsBufferPtr arch' = Some d \<longleftrightarrow>
           CACHE_MRC_SETTINGS cfg \<and>
           \<not> (vboot_recovery_mode_enabled e \<and>
              (\<not> HAS_RECOVERY_MRC_CACHE cfg \<or> get_recovery_mode_retrain_switch e)) \<and>
           mrc_cache_current_mmap_leak e MRC_TRAINING_DATA v = Some d \<and>
           (FSP2_0_USES_TPM_MRC_HASH cfg \<longrightarrow> mrc_cache_verify_hash e d)))
   \<and> (\<not> CACHE_MRC_SETTINGS cfg \<longrightarrow>
        fsp_fill_mrc_cache cfg e arch v = Inr (arch\<lparr>NvsBufferPtr := None\<rparr>))
   \<and> (vboot_recovery_mode_enabled e \<and>
        (\<not> HAS_RECOVERY_MRC_CACHE cfg \<or> get_recovery_mode_retrain_switch e) \<longrightarrow>
        fsp_fill_mrc_cache cfg e arch v = Inr (arch\<lparr>NvsBufferPtr := None\<rparr>))
   \<and> (fsp_fill_mrc_cache cfg e arch v = Inl s \<longleftrightarrow>
        s = HLT \<and> CACHE_MRC_SETTINGS cfg \<and>
        \<not> (vboot_recovery_mode_enabled e \<and>
           (\<not> HAS_RECOVERY_MRC_CACHE cfg \<or> get_recovery_mode_retrain_switch e)) \<and>
        \<not> BOOT_DEVICE_MEMORY_MAPPED cfg \<and> FATAL_ASSERTS cfg)
   \<and> (\<not> (CACHE_MRC_SETTINGS cfg \<and>
           \<not> (vboot_recovery_mode_enabled e \<and>
              (\<not> HAS_RECOVERY_MRC_CACHE cfg \<or> get_recovery_mode_retrain_switch e)) \<and>
           \<not> BOOT_DEVICE_MEMORY_MAPPED cfg \<and> FATAL_ASSERTS cfg) \<longrightarrow>
        (\<exists>q. fsp_fill_mrc_cache cfg e arch v = Inr (arch\<lparr>NvsBufferPtr := q\<rparr>) \<and>
           (\<forall>d. q = Some d \<longleftrightarrow>
              CACHE_MRC_SETTINGS cfg \<and>
              \<not> (vboot_recovery_mode_enabled e \<and>
                 (\<not> HAS_RECOVERY_MRC_CACHE cfg \<or> get_recovery_mode_retrain_switch e)) \<and>
              mrc_cache_current_mmap_leak e MRC_TRAINING_DATA v = Some d \<and>
              (FSP2_0_USES_TPM_MRC_HASH cfg \<longrightarrow> mrc_cache_verify_hash e d))))"
proof (intro conjI)
  show "fsp_fill_mrc_cache cfg e (arch\<lparr>NvsBufferPtr := p\<rparr>) v = fsp_fill_mrc_cache cfg e arch v"
    by (simp add: fsp_fill_mrc_cache_def Let_def)
  show "fsp_fill_mrc_cache cfg e arch v = Inr arch' \<longrightarrow>
        arch' = arch\<lparr>NvsBufferPtr := NvsBufferPtr arch'\<rparr> \<and>
        (NvsBufferPtr arch' = Some d \<longleftrightarrow>
           CACHE_MRC_SETTINGS cfg \<and>
           \<not> (vboot_recovery_mode_enabled e \<and>
              (\<not> HAS_RECOVERY_MRC_CACHE cfg \<or> get_recovery_mode_retrain_switch e)) \<and>
           mrc_cache_current_mmap_leak e MRC_TRAINING_DATA v = Some d \<and>
           (FSP2_0_USES_TPM_MRC_HASH cfg \<longrightarrow> mrc_cache_verify_hash e d))"
    by (auto simp: fsp_fill_mrc_cache_def Let_def split: option.splits if_splits)
  show "\<not> CACHE_MRC_SETTINGS cfg \<longrightarrow>
        fsp_fill_mrc_cache cfg e arch v = Inr (arch\<lparr>NvsBufferPtr := None\<rparr>)"
    by (simp add: fsp_fill_mrc_cache_def Let_def)
  show "vboot_recovery_mode_enabled e \<and>
        (\<not> HAS_RECOVERY_MRC_CACHE cfg \<or> get_recovery_mode_retrain_switch e) \<longrightarrow>
        fsp_fill_mrc_cache cfg e arch v = Inr (arch\<lparr>NvsBufferPtr := None\<rparr>)"
    by (simp add: fsp_fill_mrc_cache_def Let_def)
  show "fsp_fill_mrc_cache cfg e arch v = Inl s \<longleftrightarrow>
        s = HLT \<and> CACHE_MRC_SETTINGS cfg \<and>
        \<not> (vboot_recovery_mode_enabled e \<and>
           (\<not> HAS_RECOVERY_MRC_CACHE cfg \<or> get_recovery_mode_retrain_switch e)) \<and>
        \<not> BOOT_DEVICE_MEMORY_MAPPED cfg \<and> FATAL_ASSERTS cfg"
    by (rule fsp_fill_mrc_cache_Inl_iff)
  show "\<not> (CACHE_MRC_SETTINGS cfg \<and>
           \<not> (vboot_recovery_mode_enabled e \<and>
              (\<not> HAS_RECOVERY_MRC_CACHE cfg \<or> get_recovery_mode_retrain_switch e)) \<and>
           \<not> BOOT_DEVICE_MEMORY_MAPPED cfg \<and> FATAL_ASSERTS cfg) \<longrightarrow>
        (\<exists>q. fsp_fill_mrc_cache cfg e arch v = Inr (arch\<lparr>NvsBufferPtr := q\<rparr>) \<and>
           (\<forall>d. q = Some d \<longleftrightarrow>
              CACHE_MRC_SETTINGS cfg \<and>
              \<not> (vboot_recovery_mode_enabled e \<and>
                 (\<not> HAS_RECOVERY_MRC_CACHE cfg \<or> get_recovery_mode_retrain_switch e)) \<and>
              mrc_cache_current_mmap_leak e MRC_TRAINING_DATA v = Some d \<and>
              (FSP2_0_USES_TPM_MRC_HASH cfg \<longrightarrow> mrc_cache_verify_hash e d)))"
    using fsp_fill_mrc_cache_returns [of cfg e arch v] by blast
qed

theorem fill_mrc_cache_pointer_witness:
  "fsp_fill_mrc_cache sample_cfg sample_env (sample_arch_upd\<lparr>NvsBufferPtr := Some [1, 2]\<rparr>) 7
     = Inr (sample_arch_upd\<lparr>NvsBufferPtr := Some sample_training_data\<rparr>)
   \<and> fsp_fill_mrc_cache sample_cfg sample_env_miss
       (sample_arch_upd\<lparr>NvsBufferPtr := Some [1, 2]\<rparr>) 7
     = Inr (sample_arch_upd\<lparr>NvsBufferPtr := None\<rparr>)
   \<and> \<not> CACHE_MRC_SETTINGS sample_cfg_no_cache
   \<and> fsp_fill_mrc_cache sample_cfg_no_cache sample_env
       (sample_arch_upd\<lparr>NvsBufferPtr := Some [1, 2]\<rparr>) 7
     = Inr (sample_arch_upd\<lparr>NvsBufferPtr := None\<rparr>)
   \<and> fsp_fill_mrc_cache sample_cfg_fatal_assert sample_env sample_arch_upd 7 = Inl HLT
   \<and> CACHE_MRC_SETTINGS sample_cfg
   \<and> \<not> vboot_recovery_mode_enabled sample_env
   \<and> mrc_cache_current_mmap_leak sample_env MRC_TRAINING_DATA 7 = Some sample_training_data
   \<and> mrc_cache_verify_hash sample_env sample_training_data"
proof -
  have hit: "fsp_fill_mrc_cache sample_cfg sample_env sample_arch_upd 7
     = Inr (sample_arch_upd\<lparr>NvsBufferPtr := Some sample_training_data\<rparr>)"
    by (simp add: fsp_fill_mrc_cache_def Let_def sample_env_def sample_cfg_def
        sample_arch_upd_def)
  have miss: "fsp_fill_mrc_cache sample_cfg sample_env_miss sample_arch_upd 7
     = Inr (sample_arch_upd\<lparr>NvsBufferPtr := None\<rparr>)"
    by (simp add: fsp_fill_mrc_cache_def Let_def sample_env_def sample_cfg_def
        sample_arch_upd_def sample_env_miss_def)
  have facts: "CACHE_MRC_SETTINGS sample_cfg" "\<not> vboot_recovery_mode_enabled sample_env"
    "mrc_cache_current_mmap_leak sample_env MRC_TRAINING_DATA 7 = Some sample_training_data"
    "mrc_cache_verify_hash sample_env sample_training_data"
    by (simp_all add: sample_env_def sample_cfg_def)
  have off: "\<not> CACHE_MRC_SETTINGS sample_cfg_no_cache"
    by (simp add: sample_cfg_no_cache_def)
  have fatal: "CACHE_MRC_SETTINGS sample_cfg_fatal_assert"
    "\<not> BOOT_DEVICE_MEMORY_MAPPED sample_cfg_fatal_assert" "FATAL_ASSERTS sample_cfg_fatal_assert"
    by (simp_all add: sample_cfg_fatal_assert_def sample_cfg_def)
  have clear: "sample_arch_upd\<lparr>NvsBufferPtr := None\<rparr> = sample_arch_upd"
    by (simp add: sample_arch_upd_def)
  note a = fill_mrc_cache_pointer [where cfg = sample_cfg and e = sample_env
      and arch = sample_arch_upd and p = "Some [1, 2]" and v = 7
      and arch' = "sample_arch_upd\<lparr>NvsBufferPtr := Some sample_training_data\<rparr>"
      and d = sample_training_data]
  note b = fill_mrc_cache_pointer [where cfg = sample_cfg and e = sample_env_miss
      and arch = sample_arch_upd and p = "Some [1, 2]" and v = 7]
  note c = fill_mrc_cache_pointer [where cfg = sample_cfg_no_cache and e = sample_env
      and arch = sample_arch_upd and p = "Some [1, 2]" and v = 7]
  note d = fill_mrc_cache_pointer [where cfg = sample_cfg_fatal_assert and e = sample_env
      and arch = sample_arch_upd and v = 7 and s = HLT]
  from a hit have 1: "fsp_fill_mrc_cache sample_cfg sample_env
      (sample_arch_upd\<lparr>NvsBufferPtr := Some [1, 2]\<rparr>) 7
     = Inr (sample_arch_upd\<lparr>NvsBufferPtr := Some sample_training_data\<rparr>)" by simp
  from b miss have 2: "fsp_fill_mrc_cache sample_cfg sample_env_miss
       (sample_arch_upd\<lparr>NvsBufferPtr := Some [1, 2]\<rparr>) 7
     = Inr (sample_arch_upd\<lparr>NvsBufferPtr := None\<rparr>)" by simp
  from c off have 3: "fsp_fill_mrc_cache sample_cfg_no_cache sample_env
       (sample_arch_upd\<lparr>NvsBufferPtr := Some [1, 2]\<rparr>) 7
     = Inr (sample_arch_upd\<lparr>NvsBufferPtr := None\<rparr>)" by simp
  from d fatal facts(2) have 4:
    "fsp_fill_mrc_cache sample_cfg_fatal_assert sample_env sample_arch_upd 7 = Inl HLT"
    by blast
  from 1 2 3 4 off facts show ?thesis by simp
qed

lemma fsp_fill_mrc_cache_bypass:
  assumes "vboot_recovery_mode_enabled e"
    and "\<not> HAS_RECOVERY_MRC_CACHE cfg \<or> get_recovery_mode_retrain_switch e"
  shows "fsp_fill_mrc_cache cfg e arch v = Inr (arch\<lparr>NvsBufferPtr := None\<rparr>)"
  using assms by (simp add: fsp_fill_mrc_cache_def Let_def)

lemma fsp_fill_common_arch_params_bypass:
  assumes "vboot_recovery_mode_enabled e"
    and "\<not> HAS_RECOVERY_MRC_CACHE cfg \<or> get_recovery_mode_retrain_switch e"
    and "fsp_fill_common_arch_params cfg e arch s3wake v mm = Inr (CB_SUCCESS, arch')"
  shows "NvsBufferPtr arch' = None \<and>
         BootMode arch' =
           (if s3wake then FSP_BOOT_ON_S3_RESUME else FSP_BOOT_WITH_FULL_CONFIGURATION)"
proof -
  have byp: "fsp_fill_mrc_cache cfg e a v = Inr (a\<lparr>NvsBufferPtr := None\<rparr>)" for a
    using assms(1,2) by (rule fsp_fill_mrc_cache_bypass)
  from assms(3) show ?thesis
    unfolding fsp_fill_common_arch_params_def Let_def byp
    by (auto split: prod.splits cb_err.splits if_splits)
qed

lemma fsp_fill_mrc_cache_bad_hash:
  assumes "FSP2_0_USES_TPM_MRC_HASH cfg"
    and "mrc_cache_current_mmap_leak e MRC_TRAINING_DATA v = Some d"
    and "\<not> mrc_cache_verify_hash e d"
  shows "fsp_fill_mrc_cache cfg e arch v =
           fsp_fill_mrc_cache cfg (e\<lparr>mrc_cache_current_mmap_leak := \<lambda>k ver. None\<rparr>) arch v"
    and "fsp_fill_mrc_cache cfg e arch v = Inr a \<Longrightarrow> NvsBufferPtr a = None"
  using assms by (auto simp: fsp_fill_mrc_cache_def Let_def split: if_splits)

text \<open>
  Claim C8. In recovery mode without recovery-cache support, or with the retrain switch
  set, \<open>fsp_fill_mrc_cache\<close> returns with the cached-data pointer null, and the boot mode
  \<open>fsp_fill_common_arch_params\<close> selects afterwards follows that decision: resume mode on a
  resume boot, full configuration otherwise. With hash verification configured, a payload
  that fails it gives the same result as a lookup that finds nothing, with a null pointer.
\<close>

theorem recovery_bypass_and_hash_failure:
  "(vboot_recovery_mode_enabled e \<and>
      (\<not> HAS_RECOVERY_MRC_CACHE cfg \<or> get_recovery_mode_retrain_switch e) \<longrightarrow>
      fsp_fill_mrc_cache cfg e arch v = Inr (arch\<lparr>NvsBufferPtr := None\<rparr>) \<and>
      (fsp_fill_common_arch_params cfg e arch s3wake v mm = Inr (CB_SUCCESS, arch') \<longrightarrow>
         NvsBufferPtr arch' = None \<and>
         BootMode arch' =
           (if s3wake then FSP_BOOT_ON_S3_RESUME else FSP_BOOT_WITH_FULL_CONFIGURATION)))
   \<and> (FSP2_0_USES_TPM_MRC_HASH cfg \<and>
      mrc_cache_current_mmap_leak e MRC_TRAINING_DATA v = Some d \<and>
      \<not> mrc_cache_verify_hash e d \<longrightarrow>
      fsp_fill_mrc_cache cfg e arch v =
        fsp_fill_mrc_cache cfg (e\<lparr>mrc_cache_current_mmap_leak := \<lambda>k ver. None\<rparr>) arch v \<and>
      (\<forall>a. fsp_fill_mrc_cache cfg e arch v = Inr a \<longrightarrow> NvsBufferPtr a = None))"
proof (intro conjI impI allI)
  assume a: "vboot_recovery_mode_enabled e \<and>
      (\<not> HAS_RECOVERY_MRC_CACHE cfg \<or> get_recovery_mode_retrain_switch e)"
  then show "fsp_fill_mrc_cache cfg e arch v = Inr (arch\<lparr>NvsBufferPtr := None\<rparr>)"
    using fsp_fill_mrc_cache_bypass by blast
  assume "fsp_fill_common_arch_params cfg e arch s3wake v mm = Inr (CB_SUCCESS, arch')"
  with a have b: "NvsBufferPtr arch' = None \<and>
         BootMode arch' =
           (if s3wake then FSP_BOOT_ON_S3_RESUME else FSP_BOOT_WITH_FULL_CONFIGURATION)"
    using fsp_fill_common_arch_params_bypass by blast
  from b show "NvsBufferPtr arch' = None" by simp
  from b show "BootMode arch' =
           (if s3wake then FSP_BOOT_ON_S3_RESUME else FSP_BOOT_WITH_FULL_CONFIGURATION)"
    by simp
next
  assume h: "FSP2_0_USES_TPM_MRC_HASH cfg \<and>
      mrc_cache_current_mmap_leak e MRC_TRAINING_DATA v = Some d \<and>
      \<not> mrc_cache_verify_hash e d"
  then show "fsp_fill_mrc_cache cfg e arch v =
        fsp_fill_mrc_cache cfg (e\<lparr>mrc_cache_current_mmap_leak := \<lambda>k ver. None\<rparr>) arch v"
    using fsp_fill_mrc_cache_bad_hash(1) by blast
  fix a assume "fsp_fill_mrc_cache cfg e arch v = Inr a"
  with h show "NvsBufferPtr a = None"
    using fsp_fill_mrc_cache_bad_hash(2) by blast
qed

theorem recovery_bypass_and_hash_failure_witness:
  "vboot_recovery_mode_enabled sample_env_recovery
   \<and> \<not> HAS_RECOVERY_MRC_CACHE sample_cfg
   \<and> mrc_cache_current_mmap_leak sample_env_recovery MRC_TRAINING_DATA 7
       = Some sample_training_data
   \<and> fsp_fill_mrc_cache sample_cfg sample_env_recovery sample_arch_upd 7
       = Inr (sample_arch_upd\<lparr>NvsBufferPtr := None\<rparr>)
   \<and> fsp_fill_common_arch_params sample_cfg sample_env_recovery sample_arch_upd False 7
       (fsp_memory_init_memmap sample_cfg sample_env) =
      Inr (CB_SUCCESS, sample_arch_upd\<lparr>StackBase := 0xfefa0000,
          BootMode := FSP_BOOT_WITH_FULL_CONFIGURATION\<rparr>)
   \<and> FSP2_0_USES_TPM_MRC_HASH sample_cfg
   \<and> mrc_cache_current_mmap_leak sample_env_bad_hash MRC_TRAINING_DATA 7
       = Some sample_training_data
   \<and> \<not> mrc_cache_verify_hash sample_env_bad_hash sample_training_data
   \<and> fsp_fill_mrc_cache sample_cfg sample_env_bad_hash sample_arch_upd 7
       = fsp_fill_mrc_cache sample_cfg
           (sample_env_bad_hash\<lparr>mrc_cache_current_mmap_leak := \<lambda>k ver. None\<rparr>)
           sample_arch_upd 7
   \<and> fsp_fill_mrc_cache sample_cfg sample_env_bad_hash sample_arch_upd 7
       = Inr (sample_arch_upd\<lparr>NvsBufferPtr := None\<rparr>)"
proof -
  have r: "vboot_recovery_mode_enabled sample_env_recovery"
    "\<not> HAS_RECOVERY_MRC_CACHE sample_cfg"
    "mrc_cache_current_mmap_leak sample_env_recovery MRC_TRAINING_DATA 7
       = Some sample_training_data"
    by (simp_all add: sample_env_recovery_def sample_env_def sample_cfg_def)
  have h: "FSP2_0_USES_TPM_MRC_HASH sample_cfg"
    "mrc_cache_current_mmap_leak sample_env_bad_hash MRC_TRAINING_DATA 7
       = Some sample_training_data"
    "\<not> mrc_cache_verify_hash sample_env_bad_hash sample_training_data"
    by (simp_all add: sample_env_bad_hash_def sample_env_def sample_cfg_def)
  have miss: "fsp_fill_mrc_cache sample_cfg
           (sample_env_bad_hash\<lparr>mrc_cache_current_mmap_leak := \<lambda>k ver. None\<rparr>)
           sample_arch_upd 7 = Inr (sample_arch_upd\<lparr>NvsBufferPtr := None\<rparr>)"
    by (simp add: fsp_fill_mrc_cache_def Let_def sample_env_bad_hash_def sample_env_def
        sample_cfg_def)
  note a = recovery_bypass_and_hash_failure [where e = sample_env_recovery
      and cfg = sample_cfg and arch = sample_arch_upd and v = 7 and d = sample_training_data]
  note b = recovery_bypass_and_hash_failure [where e = sample_env_bad_hash
      and cfg = sample_cfg and arch = sample_arch_upd and v = 7 and d = sample_training_data]
  from a r have 1: "fsp_fill_mrc_cache sample_cfg sample_env_recovery sample_arch_upd 7
       = Inr (sample_arch_upd\<lparr>NvsBufferPtr := None\<rparr>)"
    by simp
  from b h have 2: "fsp_fill_mrc_cache sample_cfg sample_env_bad_hash sample_arch_upd 7
       = fsp_fill_mrc_cache sample_cfg
           (sample_env_bad_hash\<lparr>mrc_cache_current_mmap_leak := \<lambda>k ver. None\<rparr>)
           sample_arch_upd 7"
    by simp
  from 1 2 miss r h sample_fill_recovery show ?thesis by simp
qed

lemma fsp_fill_common_arch_params_succeeds:
  assumes placed: "FSP_USES_CB_STACK cfg \<or> \<not> ENV_CACHE_AS_RAM cfg \<or>
      check_region_overlap mm (car_region_end e - StackSize arch) (car_region_end e) = CB_SUCCESS"
    and nohalt: "\<not> (CACHE_MRC_SETTINGS cfg \<and>
            \<not> (vboot_recovery_mode_enabled e \<and>
               (\<not> HAS_RECOVERY_MRC_CACHE cfg \<or> get_recovery_mode_retrain_switch e)) \<and>
            \<not> BOOT_DEVICE_MEMORY_MAPPED cfg \<and> FATAL_ASSERTS cfg)"
  shows "\<exists>a. fsp_fill_common_arch_params cfg e arch s3wake v mm = Inr (CB_SUCCESS, a) \<and>
           BootMode a =
             (if s3wake then FSP_BOOT_ON_S3_RESUME
              else if NvsBufferPtr a \<noteq> None then FSP_BOOT_ASSUMING_NO_CONFIGURATION_CHANGES
              else FSP_BOOT_WITH_FULL_CONFIGURATION) \<and>
           (\<forall>d. NvsBufferPtr a = Some d \<longleftrightarrow>
              CACHE_MRC_SETTINGS cfg \<and>
              \<not> (vboot_recovery_mode_enabled e \<and>
                 (\<not> HAS_RECOVERY_MRC_CACHE cfg \<or> get_recovery_mode_retrain_switch e)) \<and>
              mrc_cache_current_mmap_leak e MRC_TRAINING_DATA v = Some d \<and>
              (FSP2_0_USES_TPM_MRC_HASH cfg \<longrightarrow> mrc_cache_verify_hash e d))"
proof -
  define a1 where "a1 =
     (if FSP_USES_CB_STACK cfg \<or> \<not> ENV_CACHE_AS_RAM cfg
      then arch\<lparr>StackBase := temp_ram e, StackSize := CONFIG_FSP_TEMP_RAM_SIZE cfg\<rparr>
      else arch\<lparr>StackBase := car_region_end e - StackSize arch\<rparr>)"
  from placed have p: "(if FSP_USES_CB_STACK cfg \<or> \<not> ENV_CACHE_AS_RAM cfg
         then (CB_SUCCESS,
               arch\<lparr>StackBase := temp_ram e, StackSize := CONFIG_FSP_TEMP_RAM_SIZE cfg\<rparr>)
         else setup_fsp_stack_frame e arch mm) = (CB_SUCCESS, a1)"
    by (auto simp: a1_def setup_fsp_stack_frame_def Let_def)
  from fsp_fill_mrc_cache_returns [OF nohalt, of a1 v]
  obtain q where q: "fsp_fill_mrc_cache cfg e a1 v = Inr (a1\<lparr>NvsBufferPtr := q\<rparr>)"
    and qd: "\<forall>d. q = Some d \<longleftrightarrow>
              CACHE_MRC_SETTINGS cfg \<and>
              \<not> (vboot_recovery_mode_enabled e \<and>
                 (\<not> HAS_RECOVERY_MRC_CACHE cfg \<or> get_recovery_mode_retrain_switch e)) \<and>
              mrc_cache_current_mmap_leak e MRC_TRAINING_DATA v = Some d \<and>
              (FSP2_0_USES_TPM_MRC_HASH cfg \<longrightarrow> mrc_cache_verify_hash e d)"
    by blast
  let ?a2 = "a1\<lparr>NvsBufferPtr := q\<rparr>"
  let ?a = "if s3wake then ?a2\<lparr>BootMode := FSP_BOOT_ON_S3_RESUME\<rparr>
            else if NvsBufferPtr ?a2 \<noteq> None
              then ?a2\<lparr>BootMode := FSP_BOOT_ASSUMING_NO_CONFIGURATION_CHANGES\<rparr>
            else ?a2\<lparr>BootMode := FSP_BOOT_WITH_FULL_CONFIGURATION\<rparr>"
  have run: "fsp_fill_common_arch_params cfg e arch s3wake v mm = Inr (CB_SUCCESS, ?a)"
    unfolding fsp_fill_common_arch_params_def Let_def p by (simp add: q)
  have ptr: "NvsBufferPtr ?a = q" by simp
  have mode: "BootMode ?a =
             (if s3wake then FSP_BOOT_ON_S3_RESUME
              else if NvsBufferPtr ?a \<noteq> None then FSP_BOOT_ASSUMING_NO_CONFIGURATION_CHANGES
              else FSP_BOOT_WITH_FULL_CONFIGURATION)"
    by auto
  have qd': "\<forall>d. NvsBufferPtr ?a = Some d \<longleftrightarrow>
              CACHE_MRC_SETTINGS cfg \<and>
              \<not> (vboot_recovery_mode_enabled e \<and>
                 (\<not> HAS_RECOVERY_MRC_CACHE cfg \<or> get_recovery_mode_retrain_switch e)) \<and>
              mrc_cache_current_mmap_leak e MRC_TRAINING_DATA v = Some d \<and>
              (FSP2_0_USES_TPM_MRC_HASH cfg \<longrightarrow> mrc_cache_verify_hash e d)"
    unfolding ptr by (rule qd)
  show ?thesis
    by (rule exI [of _ ?a]) (intro conjI run mode qd')
qed

lemma fsp_fill_common_arch_params_stack_rejected:
  assumes "\<not> FSP_USES_CB_STACK cfg" and "ENV_CACHE_AS_RAM cfg"
    and "check_region_overlap mm (car_region_end e - StackSize arch) (car_region_end e) = CB_ERR"
  shows "fsp_fill_common_arch_params cfg e arch s3wake v mm = Inr (CB_ERR, arch)"
  using assms by (simp add: fsp_fill_common_arch_params_def setup_fsp_stack_frame_def)

text \<open>
  Claim C3. \<open>fsp_fill_common_arch_params\<close> succeeds whenever the stack is placed (the
  shared stack is used, or the carve from the CAR region passes the overlap check) and no
  fatal assertion stops the cache consultation. The boot mode it has then set is the resume
  mode if \<open>s3wake\<close> is true, "assuming no configuration changes" if \<open>s3wake\<close> is false and
  the cached-data pointer is non-null, and "full configuration" if \<open>s3wake\<close> is false and
  the pointer is null, the pointer being non-null exactly on a verified cache hit. When the
  stack carve is rejected it fails and has not touched the boot mode.
\<close>

theorem boot_mode_three_way:
  "(fsp_fill_common_arch_params cfg e arch s3wake v mm = Inr (CB_SUCCESS, arch') \<longrightarrow>
      BootMode arch' =
        (if s3wake then FSP_BOOT_ON_S3_RESUME
         else if NvsBufferPtr arch' \<noteq> None then FSP_BOOT_ASSUMING_NO_CONFIGURATION_CHANGES
         else FSP_BOOT_WITH_FULL_CONFIGURATION))
   \<and> (fsp_fill_common_arch_params cfg e arch s3wake v mm = Inr (CB_ERR, arch') \<longrightarrow>
      BootMode arch' = BootMode arch)
   \<and> ((FSP_USES_CB_STACK cfg \<or> \<not> ENV_CACHE_AS_RAM cfg \<or>
       check_region_overlap mm (car_region_end e - StackSize arch) (car_region_end e)
         = CB_SUCCESS) \<and>
      \<not> (CACHE_MRC_SETTINGS cfg \<and>
         \<not> (vboot_recovery_mode_enabled e \<and>
            (\<not> HAS_RECOVERY_MRC_CACHE cfg \<or> get_recovery_mode_retrain_switch e)) \<and>
         \<not> BOOT_DEVICE_MEMORY_MAPPED cfg \<and> FATAL_ASSERTS cfg) \<longrightarrow>
      (\<exists>a. fsp_fill_common_arch_params cfg e arch s3wake v mm = Inr (CB_SUCCESS, a) \<and>
           BootMode a =
             (if s3wake then FSP_BOOT_ON_S3_RESUME
              else if NvsBufferPtr a \<noteq> None then FSP_BOOT_ASSUMING_NO_CONFIGURATION_CHANGES
              else FSP_BOOT_WITH_FULL_CONFIGURATION) \<and>
           (\<forall>d. NvsBufferPtr a = Some d \<longleftrightarrow>
              CACHE_MRC_SETTINGS cfg \<and>
              \<not> (vboot_recovery_mode_enabled e \<and>
                 (\<not> HAS_RECOVERY_MRC_CACHE cfg \<or> get_recovery_mode_retrain_switch e)) \<and>
              mrc_cache_current_mmap_leak e MRC_TRAINING_DATA v = Some d \<and>
              (FSP2_0_USES_TPM_MRC_HASH cfg \<longrightarrow> mrc_cache_verify_hash e d))))
   \<and> (\<not> FSP_USES_CB_STACK cfg \<and> ENV_CACHE_AS_RAM cfg \<and>
      check_region_overlap mm (car_region_end e - StackSize arch) (car_region_end e) = CB_ERR
        \<longrightarrow>
      fsp_fill_common_arch_params cfg e arch s3wake v mm = Inr (CB_ERR, arch))"
proof (intro conjI)
  show "fsp_fill_common_arch_params cfg e arch s3wake v mm = Inr (CB_SUCCESS, arch') \<longrightarrow>
      BootMode arch' =
        (if s3wake then FSP_BOOT_ON_S3_RESUME
         else if NvsBufferPtr arch' \<noteq> None then FSP_BOOT_ASSUMING_NO_CONFIGURATION_CHANGES
         else FSP_BOOT_WITH_FULL_CONFIGURATION)"
    by (auto simp: fsp_fill_common_arch_params_def setup_fsp_stack_frame_def Let_def
        split: prod.splits sum.splits cb_err.splits if_splits)
  show "fsp_fill_common_arch_params cfg e arch s3wake v mm = Inr (CB_ERR, arch') \<longrightarrow>
      BootMode arch' = BootMode arch"
    by (auto simp: fsp_fill_common_arch_params_def setup_fsp_stack_frame_def Let_def
        split: prod.splits sum.splits cb_err.splits if_splits)
  show "(FSP_USES_CB_STACK cfg \<or> \<not> ENV_CACHE_AS_RAM cfg \<or>
       check_region_overlap mm (car_region_end e - StackSize arch) (car_region_end e)
         = CB_SUCCESS) \<and>
      \<not> (CACHE_MRC_SETTINGS cfg \<and>
         \<not> (vboot_recovery_mode_enabled e \<and>
            (\<not> HAS_RECOVERY_MRC_CACHE cfg \<or> get_recovery_mode_retrain_switch e)) \<and>
         \<not> BOOT_DEVICE_MEMORY_MAPPED cfg \<and> FATAL_ASSERTS cfg) \<longrightarrow>
      (\<exists>a. fsp_fill_common_arch_params cfg e arch s3wake v mm = Inr (CB_SUCCESS, a) \<and>
           BootMode a =
             (if s3wake then FSP_BOOT_ON_S3_RESUME
              else if NvsBufferPtr a \<noteq> None then FSP_BOOT_ASSUMING_NO_CONFIGURATION_CHANGES
              else FSP_BOOT_WITH_FULL_CONFIGURATION) \<and>
           (\<forall>d. NvsBufferPtr a = Some d \<longleftrightarrow>
              CACHE_MRC_SETTINGS cfg \<and>
              \<not> (vboot_recovery_mode_enabled e \<and>
                 (\<not> HAS_RECOVERY_MRC_CACHE cfg \<or> get_recovery_mode_retrain_switch e)) \<and>
              mrc_cache_current_mmap_leak e MRC_TRAINING_DATA v = Some d \<and>
              (FSP2_0_USES_TPM_MRC_HASH cfg \<longrightarrow> mrc_cache_verify_hash e d)))"
    using fsp_fill_common_arch_params_succeeds
      [where cfg = cfg and e = e and mm = mm and arch = arch and ?s3wake = s3wake and v = v]
    by blast
  show "\<not> FSP_USES_CB_STACK cfg \<and> ENV_CACHE_AS_RAM cfg \<and>
      check_region_overlap mm (car_region_end e - StackSize arch) (car_region_end e) = CB_ERR
        \<longrightarrow>
      fsp_fill_common_arch_params cfg e arch s3wake v mm = Inr (CB_ERR, arch)"
    using fsp_fill_common_arch_params_stack_rejected
      [where cfg = cfg and e = e and mm = mm and arch = arch and ?s3wake = s3wake and v = v]
    by blast
qed

theorem boot_mode_three_way_witness:
  "fsp_fill_common_arch_params sample_cfg sample_env sample_arch_upd True 7
     (fsp_memory_init_memmap sample_cfg sample_env) =
   Inr (CB_SUCCESS, sample_arch_upd\<lparr>StackBase := 0xfefa0000,
          NvsBufferPtr := Some sample_training_data,
          BootMode := FSP_BOOT_ON_S3_RESUME\<rparr>)
   \<and> fsp_fill_common_arch_params sample_cfg sample_env sample_arch_upd False 7
     (fsp_memory_init_memmap sample_cfg sample_env) =
   Inr (CB_SUCCESS, sample_arch_upd\<lparr>StackBase := 0xfefa0000,
          NvsBufferPtr := Some sample_training_data,
          BootMode := FSP_BOOT_ASSUMING_NO_CONFIGURATION_CHANGES\<rparr>)
   \<and> length sample_training_data = 128
   \<and> fsp_fill_common_arch_params sample_cfg sample_env_miss sample_arch_upd False 7
     (fsp_memory_init_memmap sample_cfg sample_env) =
   Inr (CB_SUCCESS, sample_arch_upd\<lparr>StackBase := 0xfefa0000,
          BootMode := FSP_BOOT_WITH_FULL_CONFIGURATION\<rparr>)
   \<and> fsp_fill_common_arch_params sample_cfg sample_env (sample_arch_upd\<lparr>StackSize := 0xc0000\<rparr>)
     False 7 (fsp_memory_init_memmap sample_cfg sample_env) =
   Inr (CB_ERR, sample_arch_upd\<lparr>StackSize := 0xc0000\<rparr>)
   \<and> BootMode (sample_arch_upd\<lparr>StackSize := 0xc0000\<rparr>) = FSP_BOOT_MODE_OTHER 0"
proof -
  let ?mm = "fsp_memory_init_memmap sample_cfg sample_env"
  have cfg: "BOOT_DEVICE_MEMORY_MAPPED sample_cfg" "\<not> FSP_USES_CB_STACK sample_cfg"
    "ENV_CACHE_AS_RAM sample_cfg"
    by (simp_all add: sample_cfg_def)
  note resume = boot_mode_three_way [where cfg = sample_cfg and e = sample_env
      and arch = sample_arch_upd and ?s3wake = True and v = 7 and mm = ?mm]
  note hit = boot_mode_three_way [where cfg = sample_cfg and e = sample_env
      and arch = sample_arch_upd and ?s3wake = False and v = 7 and mm = ?mm]
  note miss = boot_mode_three_way [where cfg = sample_cfg and e = sample_env_miss
      and arch = sample_arch_upd and ?s3wake = False and v = 7 and mm = ?mm]
  note err = boot_mode_three_way [where cfg = sample_cfg and e = sample_env
      and arch = "sample_arch_upd\<lparr>StackSize := 0xc0000\<rparr>" and ?s3wake = False and v = 7
      and mm = ?mm and arch' = "sample_arch_upd\<lparr>StackSize := 0xc0000\<rparr>"]
  from resume sample_stack_placed(1) cfg(1)
  obtain a where a: "fsp_fill_common_arch_params sample_cfg sample_env sample_arch_upd True 7
      ?mm = Inr (CB_SUCCESS, a)" "BootMode a = FSP_BOOT_ON_S3_RESUME"
    by auto
  from hit sample_stack_placed(1) cfg(1)
  obtain b where b: "fsp_fill_common_arch_params sample_cfg sample_env sample_arch_upd False 7
      ?mm = Inr (CB_SUCCESS, b)"
    by blast
  from miss sample_stack_placed(2) cfg(1)
  obtain c where c: "fsp_fill_common_arch_params sample_cfg sample_env_miss sample_arch_upd
      False 7 ?mm = Inr (CB_SUCCESS, c)"
    by blast
  from err sample_stack_placed(3) cfg(2,3)
  have d: "fsp_fill_common_arch_params sample_cfg sample_env
      (sample_arch_upd\<lparr>StackSize := 0xc0000\<rparr>) False 7 ?mm
      = Inr (CB_ERR, sample_arch_upd\<lparr>StackSize := 0xc0000\<rparr>)"
    by blast
  have len: "length sample_training_data = 128" by (simp add: sample_training_data_def)
  have other: "BootMode (sample_arch_upd\<lparr>StackSize := 0xc0000\<rparr>) = FSP_BOOT_MODE_OTHER 0"
    by (simp add: sample_arch_upd_def)
  from a b c d sample_fill_resume_hit sample_fill_cold_hit sample_fill_cold_miss len other
  show ?thesis by simp
qed

subsection \<open>The call into the module\<close>

lemma save_memory_training_data_resume [simp]:
  "save_memory_training_data cfg hobs True v = []"
  by (simp add: save_memory_training_data_def)

lemma post_init_no_stash_on_resume:
  "do_fsp_post_memory_init cfg e hobs True v = (tr, r) \<Longrightarrow> filter is_stash tr = []"
  by (auto simp: do_fsp_post_memory_init_def Let_def split: prod.splits if_splits)

lemma save_stash_cold:
  "CACHE_MRC_SETTINGS cfg \<Longrightarrow> fsp_find_nv_storage_data hobs = Some d \<Longrightarrow>
     filter is_stash (save_memory_training_data cfg hobs False v) =
       [Ev_mrc_cache_stash_data MRC_TRAINING_DATA v d]"
  by (simp add: save_memory_training_data_def)

lemma post_init_cold_done:
  assumes "do_fsp_post_memory_init cfg e hobs False v = (tr, Inr ())"
    and "CACHE_MRC_SETTINGS cfg" and "fsp_find_nv_storage_data hobs = Some d"
  shows "filter is_stash tr = [Ev_mrc_cache_stash_data MRC_TRAINING_DATA v d]"
  using assms save_stash_cold [OF assms(2,3), of v]
  by (auto simp: do_fsp_post_memory_init_def Let_def split: if_splits prod.splits)

lemma post_init_no_raminit:
  "do_fsp_post_memory_init cfg e hobs s3wake v = (tr, r) \<Longrightarrow> Ev_fsp_raminit st h \<notin> set tr"
  by (auto simp: do_fsp_post_memory_init_def save_memory_training_data_def Let_def
      split: if_splits prod.splits option.splits)

lemma do_fsp_memory_init_called:
  assumes "do_fsp_memory_init cfg e ctx s3wake = (tr, out)"
    and "Ev_fsp_raminit st hobs \<in> set tr"
  shows "tr = (Ev_platform_fsp_memory_init_params_cb # (if MMA cfg then [Ev_setup_mma] else []))
            @ [Ev_fsp_raminit st hobs, Ev_fsp_handle_reset st]
            @ (if fsp_reset_requested e st then [Ev_full_reset]
               else if st \<noteq> FSP_SUCCESS then [Ev_die_with_post_code POST_RAM_FAILURE]
               else fst (do_fsp_post_memory_init cfg e hobs s3wake
                      (fsp_memory_settings_version cfg e (header ctx))))"
    and "out = (if fsp_reset_requested e st then Inl FULL_RESET
                else if st \<noteq> FSP_SUCCESS then Inl (DIE_WITH_POST_CODE POST_RAM_FAILURE)
                else snd (do_fsp_post_memory_init cfg e hobs s3wake
                       (fsp_memory_settings_version cfg e (header ctx))))"
  using assms
  by (auto simp: do_fsp_memory_init_def fsp_handle_reset_def Let_def
      split: prod.splits sum.splits cb_err.splits if_splits
      dest: post_init_no_raminit)

text \<open>
  Claim C2. On a resume boot that gets as far as the platform callback (valid UPD
  signature, common parameters filled) and whose cached-data pointer is null after the
  callback, the run is exactly: platform callback, then \<open>full_reset\<close>. The module entry point
  is not called.
\<close>

theorem resume_without_cache_resets_before_call:
  assumes "upd = upd_region e (cfg_region_offset (header ctx) + image_base (header ctx))"
    and "Signature upd = FSPM_UPD_SIGNATURE cfg"
    and "v = fsp_memory_settings_version cfg e (header ctx)"
    and "fsp_fill_common_arch_params cfg e
           ((FspmArchUpd upd)\<lparr>BootLoaderTolumSize := cbmem_overhead_size e\<rparr>)
           True v (memmap ctx) = Inr (CB_SUCCESS, arch)"
    and "NvsBufferPtr (FspmArchUpd
           (platform_fsp_memory_init_params_cb e (upd\<lparr>FspmArchUpd := arch\<rparr>) v)) = None"
  shows "do_fsp_memory_init cfg e ctx True =
           ([Ev_platform_fsp_memory_init_params_cb, Ev_full_reset], Inl FULL_RESET)"
  using assms by (simp add: do_fsp_memory_init_def Let_def)

theorem resume_without_cache_resets_before_call_witness:
  "fsp_fill_common_arch_params sample_cfg sample_env_miss
     (sample_arch_upd\<lparr>BootLoaderTolumSize := 0x1000\<rparr>) True 7
     (fsp_memory_init_memmap sample_cfg sample_env) =
   Inr (CB_SUCCESS, sample_arch_upd\<lparr>BootLoaderTolumSize := 0x1000, StackBase := 0xfefa0000,
          BootMode := FSP_BOOT_ON_S3_RESUME\<rparr>)
   \<and> do_fsp_memory_init sample_cfg sample_env_miss sample_context True =
       ([Ev_platform_fsp_memory_init_params_cb, Ev_full_reset], Inl FULL_RESET)"
proof -
  have "do_fsp_memory_init sample_cfg sample_env_miss sample_context True =
       ([Ev_platform_fsp_memory_init_params_cb, Ev_full_reset], Inl FULL_RESET)"
  proof (rule resume_without_cache_resets_before_call [where upd = sample_upd and v = 7
        and arch = "sample_arch_upd\<lparr>BootLoaderTolumSize := 0x1000, StackBase := 0xfefa0000,
          BootMode := FSP_BOOT_ON_S3_RESUME\<rparr>"])
    show "sample_upd = upd_region sample_env_miss
        (cfg_region_offset (header sample_context) + image_base (header sample_context))"
      by (simp add: sample_env_miss_def sample_env_def)
    show "Signature sample_upd = FSPM_UPD_SIGNATURE sample_cfg"
      by (simp add: sample_upd_def sample_cfg_def)
    show "7 = fsp_memory_settings_version sample_cfg sample_env_miss (header sample_context)"
      by (simp add: fsp_memory_settings_version_def sample_cfg_def sample_context_def
          sample_hdr_def)
    show "fsp_fill_common_arch_params sample_cfg sample_env_miss
           (FspmArchUpd sample_upd\<lparr>BootLoaderTolumSize := cbmem_overhead_size sample_env_miss\<rparr>)
           True 7 (memmap sample_context) =
          Inr (CB_SUCCESS, sample_arch_upd\<lparr>BootLoaderTolumSize := 0x1000,
            StackBase := 0xfefa0000, BootMode := FSP_BOOT_ON_S3_RESUME\<rparr>)"
      using sample_fill_resume_miss
      by (simp add: sample_upd_def sample_context_def sample_env_miss_def sample_env_def)
    show "NvsBufferPtr (FspmArchUpd (platform_fsp_memory_init_params_cb sample_env_miss
           (sample_upd\<lparr>FspmArchUpd := sample_arch_upd\<lparr>BootLoaderTolumSize := 0x1000,
              StackBase := 0xfefa0000, BootMode := FSP_BOOT_ON_S3_RESUME\<rparr>\<rparr>) 7)) = None"
      by (simp add: sample_env_miss_def sample_env_def sample_arch_upd_def)
  qed
  with sample_fill_resume_miss show ?thesis by simp
qed

text \<open>
  Claim C7. Whenever the module has been called, the call of \<open>fsp_handle_reset\<close> on its
  status follows immediately, before anything depends on the status. With a status other
  than success, no step of the reconciliation after the call is taken: the run ends in a
  reset when the status requests one, and in \<open>die_with_post_code(POST_RAM_FAILURE)\<close>
  otherwise.
\<close>

theorem reset_check_precedes_status_check:
  assumes "do_fsp_memory_init cfg e ctx s3wake = (tr, out)"
    and "Ev_fsp_raminit st hobs \<in> set tr"
  shows "\<exists>pre post.
           tr = pre @ [Ev_fsp_raminit st hobs, Ev_fsp_handle_reset st] @ post \<and>
           (st \<noteq> FSP_SUCCESS \<longrightarrow>
              filter is_post_init tr = [] \<and>
              (if fsp_reset_requested e st
               then post = [Ev_full_reset] \<and> out = Inl FULL_RESET
               else post = [Ev_die_with_post_code POST_RAM_FAILURE] \<and>
                    out = Inl (DIE_WITH_POST_CODE POST_RAM_FAILURE)))"
proof -
  let ?pre = "Ev_platform_fsp_memory_init_params_cb # (if MMA cfg then [Ev_setup_mma] else [])"
  let ?post = "if fsp_reset_requested e st then [Ev_full_reset]
               else if st \<noteq> FSP_SUCCESS then [Ev_die_with_post_code POST_RAM_FAILURE]
               else fst (do_fsp_post_memory_init cfg e hobs s3wake
                      (fsp_memory_settings_version cfg e (header ctx)))"
  have tr: "tr = ?pre @ [Ev_fsp_raminit st hobs, Ev_fsp_handle_reset st] @ ?post"
    using do_fsp_memory_init_called(1) [OF assms] .
  have out: "out = (if fsp_reset_requested e st then Inl FULL_RESET
                else if st \<noteq> FSP_SUCCESS then Inl (DIE_WITH_POST_CODE POST_RAM_FAILURE)
                else snd (do_fsp_post_memory_init cfg e hobs s3wake
                       (fsp_memory_settings_version cfg e (header ctx))))"
    using do_fsp_memory_init_called(2) [OF assms] .
  have "st \<noteq> FSP_SUCCESS \<longrightarrow>
          filter is_post_init tr = [] \<and>
          (if fsp_reset_requested e st
           then ?post = [Ev_full_reset] \<and> out = Inl FULL_RESET
           else ?post = [Ev_die_with_post_code POST_RAM_FAILURE] \<and>
                out = Inl (DIE_WITH_POST_CODE POST_RAM_FAILURE))"
    unfolding tr out by simp
  with tr show ?thesis by blast
qed

theorem reset_check_precedes_status_check_witness:
  "do_fsp_memory_init sample_cfg sample_env_failing sample_context False =
     ([Ev_platform_fsp_memory_init_params_cb] @
      [Ev_fsp_raminit 0x80000007 sample_hobs, Ev_fsp_handle_reset 0x80000007] @
      [Ev_die_with_post_code POST_RAM_FAILURE],
      Inl (DIE_WITH_POST_CODE POST_RAM_FAILURE))
   \<and> 0x80000007 \<noteq> FSP_SUCCESS
   \<and> \<not> fsp_reset_requested sample_env_failing 0x80000007
   \<and> filter is_post_init
        (fst (do_fsp_memory_init sample_cfg sample_env_failing sample_context False)) = []"
proof -
  have mem: "Ev_fsp_raminit 0x80000007 sample_hobs \<in>
      set [Ev_platform_fsp_memory_init_params_cb, Ev_fsp_raminit 0x80000007 sample_hobs,
       Ev_fsp_handle_reset 0x80000007, Ev_die_with_post_code POST_RAM_FAILURE]"
    by simp
  have ne: "(0x80000007 :: 32 word) \<noteq> FSP_SUCCESS" by (simp add: FSP_SUCCESS_def)
  have nr: "\<not> fsp_reset_requested sample_env_failing 0x80000007"
    by (simp add: sample_env_failing_def sample_env_def)
  from reset_check_precedes_status_check [OF sample_failing_run mem] ne
  have "filter is_post_init
      [Ev_platform_fsp_memory_init_params_cb, Ev_fsp_raminit 0x80000007 sample_hobs,
       Ev_fsp_handle_reset 0x80000007, Ev_die_with_post_code POST_RAM_FAILURE] = []"
    by blast
  with sample_failing_run ne nr show ?thesis by simp
qed

text \<open>
  Claim C5. On a resume boot (\<open>s3wake\<close> true) \<open>mrc_cache_stash_data\<close> is never called,
  whatever the module and the other collaborators do: no run of \<open>do_fsp_memory_init\<close>, and no
  run of the whole of \<open>fsp_memory_init\<close>, has a stash event.
\<close>

theorem resume_never_writes_cache:
  "filter is_stash (fst (do_fsp_memory_init cfg e ctx True)) = []
   \<and> filter is_stash (fst (fsp_memory_init cfg e True)) = []"
proof -
  have a: "filter is_stash (fst (do_fsp_memory_init cfg e c True)) = []" for c
    by (auto simp: do_fsp_memory_init_def fsp_handle_reset_def Let_def
        split: prod.splits sum.splits cb_err.splits dest: post_init_no_stash_on_resume)
  show ?thesis
    by (auto simp: a fsp_memory_init_def Let_def split: prod.splits cb_err.splits option.splits)
qed

theorem resume_never_writes_cache_witness:
  "do_fsp_memory_init sample_cfg sample_env sample_context True =
     ([Ev_platform_fsp_memory_init_params_cb, Ev_fsp_raminit 0 sample_hobs,
       Ev_fsp_handle_reset 0, Ev_cbmem_initialize_id_size 0x400000,
       Ev_romstage_handoff_init True], Inr ())
   \<and> filter is_stash (fst (do_fsp_memory_init sample_cfg sample_env sample_context True)) = []
   \<and> filter is_stash (fst (fsp_memory_init sample_cfg sample_env True)) = []"
  using resume_never_writes_cache [of sample_cfg sample_env sample_context] sample_resume_run
  by simp

text \<open>
  Claim C4, as the code has it. On a cold boot whose module call returned success and that
  ran to completion (no reset requested for the status, the reserved memory of the FSP
  accommodated in CBMEM), with caching of the settings configured and the training data found
  in the hand-off blob list, exactly one \<open>mrc_cache_stash_data\<close> call is made, for
  \<open>MRC_TRAINING_DATA\<close>, the derived settings version and that training data. The contents of
  the cache play no part.
\<close>

theorem cold_boot_stores_once:
  assumes "do_fsp_memory_init cfg e ctx False = (tr, Inr ())"
    and "Ev_fsp_raminit FSP_SUCCESS hobs \<in> set tr"
    and "CACHE_MRC_SETTINGS cfg"
    and "fsp_find_nv_storage_data hobs = Some d"
  shows "filter is_stash tr =
           [Ev_mrc_cache_stash_data MRC_TRAINING_DATA
              (fsp_memory_settings_version cfg e (header ctx)) d]"
  using assms
  by (auto simp: do_fsp_memory_init_def fsp_handle_reset_def Let_def
      split: prod.splits sum.splits cb_err.splits if_splits
      dest: post_init_no_raminit post_init_cold_done)

theorem cold_boot_stores_once_witness:
  "do_fsp_memory_init sample_cfg sample_env sample_context False =
     ([Ev_platform_fsp_memory_init_params_cb, Ev_fsp_raminit FSP_SUCCESS sample_hobs,
       Ev_fsp_handle_reset FSP_SUCCESS, Ev_cbmem_initialize_empty_id_size 0x400000,
       Ev_mrc_cache_stash_data MRC_TRAINING_DATA 7 sample_training_data,
       Ev_mrc_cache_update_hash sample_training_data,
       Ev_romstage_handoff_init False], Inr ())
   \<and> CACHE_MRC_SETTINGS sample_cfg
   \<and> fsp_find_nv_storage_data sample_hobs = Some sample_training_data
   \<and> filter is_stash (fst (do_fsp_memory_init sample_cfg sample_env sample_context False)) =
       [Ev_mrc_cache_stash_data MRC_TRAINING_DATA 7 sample_training_data]"
proof -
  have run: "do_fsp_memory_init sample_cfg sample_env sample_context False =
     ([Ev_platform_fsp_memory_init_params_cb, Ev_fsp_raminit FSP_SUCCESS sample_hobs,
       Ev_fsp_handle_reset FSP_SUCCESS, Ev_cbmem_initialize_empty_id_size 0x400000,
       Ev_mrc_cache_stash_data MRC_TRAINING_DATA 7 sample_training_data,
       Ev_mrc_cache_update_hash sample_training_data,
       Ev_romstage_handoff_init False], Inr ())"
    by (simp add: sample_cold_run FSP_SUCCESS_def)
  have c: "CACHE_MRC_SETTINGS sample_cfg" by (simp add: sample_cfg_def)
  have d: "fsp_find_nv_storage_data sample_hobs = Some sample_training_data"
    by (simp add: sample_hobs_def)
  have v: "fsp_memory_settings_version sample_cfg sample_env (header sample_context) = 7"
    by (simp add: fsp_memory_settings_version_def sample_cfg_def sample_context_def
        sample_hdr_def)
  from cold_boot_stores_once [OF run _ c d] v run c d show ?thesis by simp
qed

text \<open>
  Claim C4 as stated fails: with caching configured, a cold boot whose module call returns
  success but leaves no training data in the hand-off blob list runs to completion without a
  single \<open>mrc_cache_stash_data\<close> call.
\<close>

theorem cold_boot_store_skipped_counterexample:
  "CACHE_MRC_SETTINGS sample_cfg
   \<and> do_fsp_memory_init sample_cfg sample_env_no_data sample_context False =
     ([Ev_platform_fsp_memory_init_params_cb, Ev_fsp_raminit FSP_SUCCESS sample_hobs_no_data,
       Ev_fsp_handle_reset FSP_SUCCESS, Ev_cbmem_initialize_empty_id_size 0x400000,
       Ev_romstage_handoff_init False], Inr ())
   \<and> length (filter is_stash
         (fst (do_fsp_memory_init sample_cfg sample_env_no_data sample_context False))) = 0"
  by (simp add: sample_no_data_run FSP_SUCCESS_def) (simp add: sample_cfg_def)

end
